theory Spec2Isabelle
  imports Complex_Main "HOL-Library.Sublist" "HOL-Library.Char_ord" "HOL-Library.List_Lexorder"
begin

section \<open>JavaScript strings\<close>

text \<open>
  A JavaScript string is a sequence of UTF-16 code units. The model uses \<open>string\<close>, and a
  \<open>char\<close> stands for the code unit of the same value, U+0000 to U+00FF. The character
  classes below are the ECMAScript ones cut down to that range, and the case mappings are
  the Unicode ones of that range. Only \<open>toUpperCase\<close> is not exact there: the two code
  units whose upper case lies beyond U+00FF (U+00B5 and U+00FF) are left as they are, so a
  statement about the upper case of all strings is made for strings without these two.
\<close>

definition code_unit :: "char \<Rightarrow> nat" where
  "code_unit c = of_char c"

text \<open>
  A character whose upper case is one character of the range: every character but the
  sharp s U+00DF, whose upper case is SS, and the micro sign U+00B5 and the y with
  diaeresis U+00FF, whose upper cases lie beyond the range. A string is of simple case
  when all its characters are.
\<close>

definition one_unit_upper :: "char \<Rightarrow> bool" where
  "one_unit_upper c = (code_unit c \<noteq> 223 \<and> code_unit c \<noteq> 181 \<and> code_unit c \<noteq> 255)"

definition simple_case :: "string \<Rightarrow> bool" where
  "simple_case s = list_all one_unit_upper s"

text \<open>The class \<open>\s\<close> and the characters \<open>trim()\<close> removes: TAB, LF, VT, FF, CR, SP, NBSP.\<close>

definition is_space :: "char \<Rightarrow> bool" where
  "is_space c = ((9 \<le> code_unit c \<and> code_unit c \<le> 13) \<or> code_unit c = 32 \<or> code_unit c = 160)"

text \<open>The class \<open>\d\<close> is \<open>[0-9]\<close>; \<open>\D\<close> is its complement.\<close>

definition is_digit :: "char \<Rightarrow> bool" where
  "is_digit c = (48 \<le> code_unit c \<and> code_unit c \<le> 57)"

text \<open>The class \<open>[a-zA-Z]\<close>.\<close>

definition is_alpha :: "char \<Rightarrow> bool" where
  "is_alpha c = ((65 \<le> code_unit c \<and> code_unit c \<le> 90) \<or> (97 \<le> code_unit c \<and> code_unit c \<le> 122))"

text \<open>A line terminator, which the regular expression \<open>.\<close> does not match: LF and CR.\<close>

definition is_line_terminator :: "char \<Rightarrow> bool" where
  "is_line_terminator c = (code_unit c = 10 \<or> code_unit c = 13)"

text \<open>
  Characters with a lower case: A to Z, and U+00C0 to U+00DE without the multiplication
  sign U+00D7. The lower case is 32 higher.
\<close>

definition has_lower :: "char \<Rightarrow> bool" where
  "has_lower c = ((65 \<le> code_unit c \<and> code_unit c \<le> 90) \<or> (192 \<le> code_unit c \<and> code_unit c \<le> 222 \<and> code_unit c \<noteq> 215))"

definition toLowerCase_char :: "char \<Rightarrow> char" where
  "toLowerCase_char c = (if has_lower c then char_of (code_unit c + 32) else c)"

text \<open>
  Characters with an upper case 32 lower: a to z, and U+00E0 to U+00FE without the division
  sign U+00F7. The sharp s U+00DF has the two-letter upper case SS.
\<close>

definition has_upper :: "char \<Rightarrow> bool" where
  "has_upper c = ((97 \<le> code_unit c \<and> code_unit c \<le> 122) \<or> (224 \<le> code_unit c \<and> code_unit c \<le> 254 \<and> code_unit c \<noteq> 247))"

definition toUpperCase_char :: "char \<Rightarrow> string" where
  "toUpperCase_char c =
     (if code_unit c = 223 then ''SS''
      else if has_upper c then [char_of (code_unit c - 32)] else [c])"

definition toLowerCase :: "string \<Rightarrow> string" where
  "toLowerCase s = map toLowerCase_char s"

definition toUpperCase :: "string \<Rightarrow> string" where
  "toUpperCase s = concat (map toUpperCase_char s)"

text \<open>\<open>s.trim()\<close>\<close>

definition trim :: "string \<Rightarrow> string" where
  "trim s = rev (dropWhile is_space (rev (dropWhile is_space s)))"

text \<open>\<open>s.replace(/\s+/g, " ")\<close>: every maximal run of white space becomes one space.\<close>

fun collapse_spaces :: "string \<Rightarrow> string" where
  "collapse_spaces [] = []"
| "collapse_spaces [c] = (if is_space c then '' '' else [c])"
| "collapse_spaces (c # d # cs) =
     (if is_space c then
        (if is_space d then collapse_spaces (d # cs) else CHR '' '' # collapse_spaces (d # cs))
      else c # collapse_spaces (d # cs))"

text \<open>\<open>s.replace(/\D/g, "")\<close>\<close>

definition digits_of :: "string \<Rightarrow> string" where
  "digits_of s = filter is_digit s"

text \<open>\<open>s.startsWith(p)\<close>\<close>

fun startsWith :: "string \<Rightarrow> string \<Rightarrow> bool" where
  "startsWith s [] = True"
| "startsWith [] (p # ps) = False"
| "startsWith (c # cs) (p # ps) = (c = p \<and> startsWith cs ps)"

text \<open>\<open>s.endsWith(p)\<close>\<close>

definition endsWith :: "string \<Rightarrow> string \<Rightarrow> bool" where
  "endsWith s p = startsWith (rev s) (rev p)"

text \<open>\<open>s.includes(p)\<close>\<close>

fun str_includes :: "string \<Rightarrow> string \<Rightarrow> bool" where
  "str_includes [] p = (p = [])"
| "str_includes (c # cs) p = (startsWith (c # cs) p \<or> str_includes cs p)"

text \<open>\<open>s.split(sep)\<close> for a separator of one character; the result is never empty.\<close>

fun split :: "char \<Rightarrow> string \<Rightarrow> string list" where
  "split sep [] = [[]]"
| "split sep (c # cs) =
     (if c = sep then [] # split sep cs
      else (case split sep cs of [] \<Rightarrow> [[c]] | w # ws \<Rightarrow> (c # w) # ws))"

text \<open>\<open>parts.join(sep)\<close>\<close>

fun join :: "string \<Rightarrow> string list \<Rightarrow> string" where
  "join sep [] = []"
| "join sep [w] = w"
| "join sep (w # v # ws) = w @ sep @ join sep (v # ws)"

text \<open>\<open>s.substring(a, b)\<close> for \<open>a \<le> b\<close>, and \<open>s.substring(a)\<close>.\<close>

definition substring :: "string \<Rightarrow> nat \<Rightarrow> nat \<Rightarrow> string" where
  "substring s a b = take (b - a) (drop a s)"

definition substring_from :: "string \<Rightarrow> nat \<Rightarrow> string" where
  "substring_from s a = drop a s"

text \<open>
  Truthiness of a \<open>string | null\<close> value: \<open>null\<close> and the empty string are falsy. The
  operator \<open>a || b\<close> is \<open>a\<close> when \<open>a\<close> is truthy and \<open>b\<close> otherwise.
\<close>

fun truthy :: "string option \<Rightarrow> bool" where
  "truthy None = False"
| "truthy (Some s) = (s \<noteq> [])"

definition or_else :: "string option \<Rightarrow> string option \<Rightarrow> string option" where
  "or_else a b = (if truthy a then a else b)"

section \<open>Phone normalizer\<close>

text \<open>\<open>PhoneNormalizer.formatUS\<close>\<close>

definition formatUS :: "string \<Rightarrow> string" where
  "formatUS digits =
     (let areaCode = substring digits 0 3;
          exchange = substring digits 3 6;
          subscriber = substring digits 6 10
      in ''('' @ areaCode @ '') '' @ exchange @ ''-'' @ subscriber)"

text \<open>
  \<open>PhoneNormalizer.normalize\<close>. The first replacement keeps digits and every plus sign;
  \<open>hasPlus\<close> is computed and never read; the second replacement keeps the digits.
\<close>

definition phone_normalize :: "string option \<Rightarrow> string option" where
  "phone_normalize phone =
     (case phone of
        None \<Rightarrow> None
      | Some p \<Rightarrow>
          if p = [] then None
          else
            let digits0 = filter (\<lambda>c. is_digit c \<or> c = CHR ''+'') p;
                hasPlus = startsWith digits0 ''+'';
                digits = digits_of digits0
            in if length digits = 0 then None
               else if length digits = 10 then Some (formatUS digits)
               else if length digits = 11 \<and> startsWith digits ''1''
                 then Some (formatUS (substring_from digits 1))
               else if length digits > 11 then Some (''+'' @ digits)
               else if length digits = 7
                 then Some (substring digits 0 3 @ ''-'' @ substring_from digits 3)
               else Some digits)"

text \<open>\<open>PhoneNormalizer.isValid\<close>\<close>

definition phone_isValid :: "string option \<Rightarrow> bool" where
  "phone_isValid phone =
     (case phone of
        None \<Rightarrow> False
      | Some p \<Rightarrow>
          if p = [] then False
          else let digits = digits_of p in length digits \<ge> 7 \<and> length digits \<le> 15)"

section \<open>Name normalizer\<close>

definition lowercaseWords :: "string list" where
  "lowercaseWords =
     [''de'', ''del'', ''della'', ''di'', ''da'', ''van'', ''von'', ''der'', ''den'', ''la'',
      ''le'', ''du'']"

text \<open>The third prefix is \<open>o\<close> followed by an apostrophe.\<close>

definition o_apostrophe :: string where
  "o_apostrophe = [CHR ''o'', CHR 0x27]"

definition specialPrefixes :: "string list" where
  "specialPrefixes = [''mc'', ''mac'', o_apostrophe]"

text \<open>\<open>NameNormalizer.capitalize\<close>\<close>

definition capitalize :: "string \<Rightarrow> string" where
  "capitalize word =
     (case word of [] \<Rightarrow> word | c # cs \<Rightarrow> toUpperCase [c] @ toLowerCase cs)"

text \<open>
  The loop over \<open>specialPrefixes\<close> in \<open>NameNormalizer.normalize\<close>: the first prefix that
  the lower-cased word starts with, and is longer than, decides the result.
\<close>

fun special_prefix :: "string list \<Rightarrow> string \<Rightarrow> string \<Rightarrow> string option" where
  "special_prefix [] word lowerWord = None"
| "special_prefix (pre # more) word lowerWord =
     (if startsWith lowerWord pre \<and> length lowerWord > length pre then
        (let rest = substring_from word (length pre)
         in if pre = o_apostrophe then Some ([CHR ''O'', CHR 0x27] @ capitalize rest)
            else Some (capitalize pre @ capitalize rest))
      else special_prefix more word lowerWord)"

text \<open>The function mapped over the words, with the index of the word.\<close>

definition normalize_word :: "string \<Rightarrow> nat \<Rightarrow> string" where
  "normalize_word word index =
     (if word = [] then word
      else
        let lowerWord = toLowerCase word
        in case special_prefix specialPrefixes word lowerWord of
             Some r \<Rightarrow> r
           | None \<Rightarrow>
               if index > 0 \<and> lowerWord \<in> set lowercaseWords then lowerWord
               else if CHR ''-'' \<in> set word
                 then join ''-'' (map capitalize (split (CHR ''-'') word))
               else capitalize word)"

text \<open>\<open>words.map((word, index) => ...)\<close>, the index counting from \<open>i\<close>.\<close>

fun map_words :: "nat \<Rightarrow> string list \<Rightarrow> string list" where
  "map_words i [] = []"
| "map_words i (w # ws) = normalize_word w i # map_words (Suc i) ws"

text \<open>\<open>NameNormalizer.normalize\<close>\<close>

definition name_normalize :: "string option \<Rightarrow> string option" where
  "name_normalize name =
     (case name of
        None \<Rightarrow> None
      | Some n \<Rightarrow>
          if n = [] then None
          else
            let normalized = collapse_spaces (trim n)
            in if length normalized = 0 then None
               else
                 let words = split (CHR '' '') normalized;
                     normalizedWords = map_words 0 words
                 in Some (join '' '' normalizedWords))"

text \<open>\<open>NameNormalizer.isValid\<close>\<close>

definition name_isValid :: "string option \<Rightarrow> bool" where
  "name_isValid name =
     (case name of
        None \<Rightarrow> False
      | Some n \<Rightarrow>
          if n = [] then False
          else let trimmed = trim n in length trimmed \<ge> 2 \<and> list_ex is_alpha trimmed)"

section \<open>Role normalizer\<close>

text \<open>\<open>ROLE_MAPPINGS\<close>, in the order of the object literal (the order of \<open>Object.entries\<close>).\<close>

definition ROLE_MAPPINGS :: "(string \<times> string) list" where
  "ROLE_MAPPINGS =
     [(''dp'', ''Director of Photography''),
      (''dop'', ''Director of Photography''),
      (''1st ac'', ''1st Assistant Camera''),
      (''2nd ac'', ''2nd Assistant Camera''),
      (''a/c'', ''Assistant Camera''),
      (''ac'', ''Assistant Camera''),
      (''cam op'', ''Camera Operator''),
      (''steadicam'', ''Steadicam Operator''),
      (''digi tech'', ''Digital Technician''),
      (''dit'', ''Digital Imaging Technician''),
      (''gaffer'', ''Gaffer''),
      (''key grip'', ''Key Grip''),
      (''best boy'', ''Best Boy''),
      (''best boy electric'', ''Best Boy Electric''),
      (''best boy grip'', ''Best Boy Grip''),
      (''grip'', ''Grip''),
      (''electric'', ''Electric''),
      (''ad'', ''Assistant Director''),
      (''1st ad'', ''1st Assistant Director''),
      (''2nd ad'', ''2nd Assistant Director''),
      (''pa'', ''Production Assistant''),
      (''pm'', ''Production Manager''),
      (''upm'', ''Unit Production Manager''),
      (''lm'', ''Location Manager''),
      (''loc manager'', ''Location Manager''),
      (''prod designer'', ''Production Designer''),
      (''art director'', ''Art Director''),
      (''set dresser'', ''Set Dresser''),
      (''prop master'', ''Property Master''),
      (''prop stylist'', ''Prop Stylist''),
      (''props'', ''Props''),
      (''prop asst'', ''Prop Assistant''),
      (''hmu'', ''Hair & Makeup''),
      (''hmua'', ''Hair & Makeup Artist''),
      (''mua'', ''Makeup Artist''),
      (''hair/makeup'', ''Hair & Makeup''),
      (''groomer'', ''Groomer''),
      (''wardrobe'', ''Wardrobe Stylist''),
      (''wardrobe asst'', ''Wardrobe Assistant''),
      (''stylist'', ''Stylist''),
      (''sound'', ''Sound Mixer''),
      (''audio'', ''Audio''),
      (''boom op'', ''Boom Operator''),
      (''sound mixer'', ''Sound Mixer''),
      (''photo'', ''Photographer''),
      (''photographer'', ''Photographer''),
      (''photo asst'', ''Photo Assistant''),
      (''photo assistant'', ''Photo Assistant''),
      (''digital tech'', ''Digital Technician''),
      (''bts'', ''Behind The Scenes''),
      (''craft services'', ''Craft Services''),
      (''crafty'', ''Craft Services''),
      (''medic'', ''Set Medic''),
      (''covid officer'', ''COVID Compliance Officer'')]"

text \<open>\<open>DEPARTMENT_KEYWORDS\<close>, in the order of the object literal.\<close>

definition DEPARTMENT_KEYWORDS :: "(string \<times> string list) list" where
  "DEPARTMENT_KEYWORDS =
     [(''Camera'', [''camera'', ''dp'', ''dop'', ''ac'', ''steadicam'', ''dit'', ''digi'',
                    ''photo'', ''photographer'']),
      (''Grip & Electric'', [''grip'', ''gaffer'', ''electric'', ''best boy'', ''lighting'']),
      (''Production'', [''producer'', ''production'', ''ad'', ''assistant director'',
                        ''coordinator'', ''pm'', ''upm'']),
      (''Art'', [''art'', ''prop'', ''set'', ''scenic'', ''designer'', ''decorator'']),
      (''Hair & Makeup'', [''hair'', ''makeup'', ''hmu'', ''mua'', ''groomer'', ''beauty'']),
      (''Wardrobe'', [''wardrobe'', ''costume'', ''stylist'']),
      (''Sound'', [''sound'', ''audio'', ''boom'', ''mixer'']),
      (''Locations'', [''location'', ''loc manager'']),
      (''Transport'', [''driver'', ''transport'', ''picture car'']),
      (''Talent'', [''talent'', ''actor'', ''actress'', ''model'', ''cast'']),
      (''Creative'', [''director'', ''creative'', ''writer'']),
      (''Video'', [''video'', ''editor'', ''post''])]"

text \<open>
  The property read \<open>ROLE_MAPPINGS[lowerRole]\<close>. The table is an object literal, so the
  read also finds the properties inherited from \<open>Object.prototype\<close>; the inherited names
  that a lower-cased string can equal are \<open>constructor\<close> and \<open>__proto__\<close>, and their
  values are objects, not strings.
\<close>

datatype property = Absent | Own string | Inherited

definition ROLE_MAPPINGS_get :: "string \<Rightarrow> property" where
  "ROLE_MAPPINGS_get key =
     (case map_of ROLE_MAPPINGS key of
        Some full \<Rightarrow> Own full
      | None \<Rightarrow> if key = ''constructor'' \<or> key = ''__proto__'' then Inherited else Absent)"

text \<open>The loop over \<open>Object.entries(ROLE_MAPPINGS)\<close>: the first entry that matches wins.\<close>

fun partial_match :: "(string \<times> string) list \<Rightarrow> string \<Rightarrow> string option" where
  "partial_match [] lowerRole = None"
| "partial_match ((abbrev, full) # more) lowerRole =
     (if lowerRole = abbrev \<or> str_includes lowerRole abbrev then Some full
      else partial_match more lowerRole)"

text \<open>\<open>RoleNormalizer.toTitleCase\<close>\<close>

definition toTitleCase :: "string \<Rightarrow> string" where
  "toTitleCase str =
     join '' '' (map (\<lambda>word. toUpperCase (take 1 word) @ toLowerCase (drop 1 word))
                     (split (CHR '' '') str))"

text \<open>
  \<open>RoleNormalizer.normalizeRole\<close>. The result is \<open>null\<close> or a string, or the object that
  an inherited property holds.
\<close>

datatype role_result = Role "string option" | InheritedObject

definition normalizeRole :: "string option \<Rightarrow> role_result" where
  "normalizeRole role =
     (case role of
        None \<Rightarrow> Role None
      | Some r \<Rightarrow>
          if r = [] then Role None
          else
            let trimmed = trim r
            in if trimmed = [] then Role None
               else
                 let lowerRole = toLowerCase trimmed
                 in (case ROLE_MAPPINGS_get lowerRole of
                       Own full \<Rightarrow> Role (Some full)
                     | Inherited \<Rightarrow> InheritedObject
                     | Absent \<Rightarrow>
                         (case partial_match ROLE_MAPPINGS lowerRole of
                            Some full \<Rightarrow> Role (Some full)
                          | None \<Rightarrow> Role (Some (toTitleCase trimmed)))))"

text \<open>The two loops of \<open>RoleNormalizer.inferDepartment\<close>.\<close>

fun department_scan :: "(string \<times> string list) list \<Rightarrow> string \<Rightarrow> string option" where
  "department_scan [] lowerRole = None"
| "department_scan ((department, keywords) # more) lowerRole =
     (if list_ex (\<lambda>keyword. str_includes lowerRole keyword) keywords then Some department
      else department_scan more lowerRole)"

text \<open>\<open>RoleNormalizer.inferDepartment\<close>, for a role that is \<open>null\<close> or a string.\<close>

definition inferDepartment :: "string option \<Rightarrow> string option \<Rightarrow> string option" where
  "inferDepartment role existingDepartment =
     (if truthy existingDepartment \<and> truthy (map_option trim existingDepartment)
        then existingDepartment
      else
        (case role of
           None \<Rightarrow> None
         | Some r \<Rightarrow>
             if r = [] then None
             else let lowerRole = toLowerCase r in department_scan DEPARTMENT_KEYWORDS lowerRole))"

section \<open>Extraction data\<close>

text \<open>
  The contact of \<open>ContactSchema\<close>. A nullable string is a \<open>string option\<close>. The
  confidence is a number that the code only reads for logging.
\<close>

record contact =
  name :: string
  role :: "string option"
  department :: "string option"
  phone :: "string option"
  email :: "string option"
  "notes" :: "string option"
  confidence :: "real option"

record emergency_contact =
  ec_type :: string
  ec_name :: "string option"
  ec_phone :: "string option"

record location =
  loc_name :: "string option"
  loc_address :: "string option"
  loc_phone :: "string option"

record production_info =
  title :: "string option"
  production_company :: "string option"
  shoot_date :: "string option"

record ExtractionResult =
  production_info :: production_info
  contacts :: "contact list"
  emergency_contacts :: "emergency_contact list"
  locations :: "location list"

section \<open>Deduplicator\<close>

text \<open>\<open>Deduplicator.generateKey\<close>\<close>

definition generateKey :: "contact \<Rightarrow> string" where
  "generateKey c =
     (let normalizedName = collapse_spaces (trim (toLowerCase (name c)));
          normalizedPhone = (case phone c of None \<Rightarrow> [] | Some p \<Rightarrow> digits_of p);
          normalizedEmail = (case email c of None \<Rightarrow> [] | Some e \<Rightarrow> trim (toLowerCase e))
      in if length normalizedPhone \<ge> 7 then normalizedName @ ''|'' @ normalizedPhone
         else if normalizedEmail \<noteq> [] then normalizedName @ ''|'' @ normalizedEmail
         else normalizedName)"

text \<open>\<open>Deduplicator.mergeNotes\<close>\<close>

definition mergeNotes :: "string option \<Rightarrow> string option \<Rightarrow> string option" where
  "mergeNotes existing newNotes =
     (if \<not> truthy existing \<and> \<not> truthy newNotes then None
      else if \<not> truthy existing then newNotes
      else if \<not> truthy newNotes then existing
      else if existing = newNotes then existing
      else Some (the existing @ ''; '' @ the newNotes))"

text \<open>
  \<open>Deduplicator.mergeContacts\<close>. The object it builds has the six properties of the
  deduplicator's own contact type, so a merged contact has no confidence.
\<close>

definition mergeContacts :: "contact \<Rightarrow> contact \<Rightarrow> contact" where
  "mergeContacts existing newContact =
     \<lparr> name = (if name existing \<noteq> [] then name existing else name newContact),
       role = or_else (role existing) (role newContact),
       department = or_else (department existing) (department newContact),
       phone = or_else (phone existing) (phone newContact),
       email = or_else (email existing) (email newContact),
       notes = mergeNotes (notes existing) (notes newContact),
       confidence = None \<rparr>"

text \<open>
  \<open>mergedMap\<close> is a \<open>Map\<close>, which keeps its keys in the order of their first insertion:
  an association list, where \<open>set\<close> replaces the value of a key in place and appends a new
  key, and \<open>get\<close> is \<open>map_of\<close>.
\<close>

fun map_set :: "(string \<times> contact) list \<Rightarrow> string \<Rightarrow> contact \<Rightarrow> (string \<times> contact) list" where
  "map_set [] k v = [(k, v)]"
| "map_set ((k', v') # m) k v = (if k' = k then (k, v) # m else (k', v') # map_set m k v)"

text \<open>The body of the loop of \<open>Deduplicator.deduplicate\<close>, and the loop.\<close>

definition dedup_step ::
  "contact \<Rightarrow> (string \<times> contact) list \<times> nat \<Rightarrow> (string \<times> contact) list \<times> nat" where
  "dedup_step c st =
     (case st of (mergedMap, removedCount) \<Rightarrow>
        let key = generateKey c
        in (case map_of mergedMap key of
              Some existing \<Rightarrow> (map_set mergedMap key (mergeContacts existing c), removedCount + 1)
            | None \<Rightarrow> (map_set mergedMap key c, removedCount)))"

fun dedup_loop ::
  "contact list \<Rightarrow> (string \<times> contact) list \<times> nat \<Rightarrow> (string \<times> contact) list \<times> nat" where
  "dedup_loop [] st = st"
| "dedup_loop (c # cs) st = dedup_loop cs (dedup_step c st)"

text \<open>\<open>Deduplicator.deduplicate\<close>; the result is the pair of \<open>contacts\<close> and \<open>removedCount\<close>.\<close>

definition deduplicate :: "contact list \<Rightarrow> contact list \<times> nat" where
  "deduplicate cs =
     (if length cs = 0 then ([], 0)
      else case dedup_loop cs ([], 0) of (mergedMap, removedCount) \<Rightarrow>
             (map snd mergedMap, removedCount))"

section \<open>Normalization service\<close>

record NormalizationConfig =
  normalizePhones :: bool
  normalizeNames :: bool
  normalizeRoles :: bool
  inferDepartments :: bool
  deduplicate_on :: bool
  defaultCountryCode :: string

definition DEFAULT_CONFIG :: NormalizationConfig where
  "DEFAULT_CONFIG =
     \<lparr> normalizePhones = True, normalizeNames = True, normalizeRoles = True,
       inferDepartments = True, deduplicate_on = True, defaultCountryCode = ''1'' \<rparr>"

record NormalizationStats =
  phonesNormalized :: nat
  namesNormalized :: nat
  rolesNormalized :: nat
  departmentsInferred :: nat
  duplicatesRemoved :: nat
  totalContacts :: nat

datatype severity = Warning | Error

record NormalizationIssue =
  issue_type :: severity
  field :: string
  contactName :: "string option"
  message :: string

record NormalizationResult =
  data :: ExtractionResult
  stats :: NormalizationStats
  issues :: "NormalizationIssue list"

text \<open>
  What \<open>normalize\<close> can do instead of returning a well-typed result. When the role
  normalizer returns an inherited object, the object is stored as the contact's role. Then
  \<open>inferDepartment\<close>, unless it returns the existing department first, calls
  \<open>toLowerCase\<close> on the object, which throws a \<open>TypeError\<close>; otherwise the contact keeps a
  role that is no string, and the model does not follow the call further.
\<close>

datatype js_error = TypeError | NonStringRole

text \<open>The state of the loop over the contacts: the counters and the issues so far.\<close>

type_synonym progress = "NormalizationStats \<times> NormalizationIssue list"

text \<open>\<open>NormalizationService.isValidEmail\<close>: the test of
  \<^verbatim>\<open>/^[^\s@]+@[^\s@]+\.[^\s@]+$/\<close>. No character of the three classes is white space or
  an at sign, so a match is a non-empty local part, the only at sign, and a domain
  with a dot that is neither its first nor its last character.\<close>

definition email_char :: "char \<Rightarrow> bool" where
  "email_char c = (\<not> is_space c \<and> c \<noteq> CHR ''@'')"

definition isValidEmail :: "string \<Rightarrow> bool" where
  "isValidEmail e =
     (let local_part = takeWhile (\<lambda>c. c \<noteq> CHR ''@'') e;
          rest = dropWhile (\<lambda>c. c \<noteq> CHR ''@'') e
      in local_part \<noteq> [] \<and> list_all email_char local_part \<and>
         (case rest of
            [] \<Rightarrow> False
          | at_sign # domain_part \<Rightarrow>
              list_all email_char domain_part \<and> CHR ''.'' \<in> set (butlast (tl domain_part))))"

text \<open>The name block of the function mapped over the contacts.\<close>

definition name_step :: "NormalizationConfig \<Rightarrow> contact \<Rightarrow> progress \<Rightarrow> contact \<times> progress" where
  "name_step cfg c pr =
     (case pr of (st, iss) \<Rightarrow>
        let originalName = name c
        in if normalizeNames cfg then
             (let normalizedName = name_normalize (Some (name c));
                  changed = (truthy normalizedName \<and> normalizedName \<noteq> Some (name c));
                  c1 = (if changed then c\<lparr>name := the normalizedName\<rparr> else c);
                  st1 = (if changed then st\<lparr>namesNormalized := namesNormalized st + 1\<rparr> else st);
                  iss1 = (if \<not> name_isValid (Some (name c1))
                          then iss @ [\<lparr> issue_type = Warning, field = ''name'',
                                        contactName = Some originalName,
                                        message = ''Invalid or incomplete name: \"'' @ name c1 @ ''\"'' \<rparr>]
                          else iss)
              in (c1, (st1, iss1)))
           else (c, (st, iss)))"

text \<open>The phone block.\<close>

definition phone_step :: "NormalizationConfig \<Rightarrow> contact \<Rightarrow> progress \<Rightarrow> contact \<times> progress" where
  "phone_step cfg c pr =
     (case pr of (st, iss) \<Rightarrow>
        if normalizePhones cfg \<and> truthy (phone c) then
          (let normalizedPhone = phone_normalize (phone c);
               changed = (normalizedPhone \<noteq> phone c);
               c1 = (if changed then c\<lparr>phone := normalizedPhone\<rparr> else c);
               st1 = (if changed then st\<lparr>phonesNormalized := phonesNormalized st + 1\<rparr> else st);
               iss1 = (if truthy (phone c1) \<and> \<not> phone_isValid (phone c1)
                       then iss @ [\<lparr> issue_type = Warning, field = ''phone'',
                                     contactName = Some (name c1),
                                     message = ''Invalid phone number: \"'' @ the (phone c1) @ ''\"'' \<rparr>]
                       else iss)
           in (c1, (st1, iss1)))
        else (c, (st, iss)))"

text \<open>The department block, for a contact whose role is \<open>null\<close> or a string.\<close>

definition department_step :: "NormalizationConfig \<Rightarrow> contact \<Rightarrow> progress \<Rightarrow> contact \<times> progress" where
  "department_step cfg c pr =
     (case pr of (st, iss) \<Rightarrow>
        if inferDepartments cfg then
          (let inferredDepartment = inferDepartment (role c) (department c)
           in if truthy inferredDepartment \<and> \<not> truthy (department c)
              then (c\<lparr>department := inferredDepartment\<rparr>,
                    (st\<lparr>departmentsInferred := departmentsInferred st + 1\<rparr>, iss))
              else (c, (st, iss)))
        else (c, (st, iss)))"

text \<open>The role block. What follows an inherited object is described at \<open>js_error\<close>.\<close>

definition role_step ::
  "NormalizationConfig \<Rightarrow> contact \<Rightarrow> progress \<Rightarrow> js_error + contact \<times> progress" where
  "role_step cfg c pr =
     (case pr of (st, iss) \<Rightarrow>
        if normalizeRoles cfg \<and> truthy (role c) then
          (case normalizeRole (role c) of
             InheritedObject \<Rightarrow>
               if inferDepartments cfg \<and>
                  \<not> (truthy (department c) \<and> truthy (map_option trim (department c)))
               then Inl TypeError
               else Inl NonStringRole
           | Role normalizedRole \<Rightarrow>
               if truthy normalizedRole \<and> normalizedRole \<noteq> role c
               then Inr (c\<lparr>role := normalizedRole\<rparr>,
                         (st\<lparr>rolesNormalized := rolesNormalized st + 1\<rparr>, iss))
               else Inr (c, (st, iss)))
        else Inr (c, (st, iss)))"

text \<open>The email block.\<close>

definition email_step :: "contact \<Rightarrow> progress \<Rightarrow> contact \<times> progress" where
  "email_step c pr =
     (case pr of (st, iss) \<Rightarrow>
        if truthy (email c) then
          (let e = trim (toLowerCase (the (email c)));
               c1 = c\<lparr>email := Some e\<rparr>;
               iss1 = (if \<not> isValidEmail e
                       then iss @ [\<lparr> issue_type = Warning, field = ''email'',
                                     contactName = Some (name c1),
                                     message = ''Invalid email format: \"'' @ e @ ''\"'' \<rparr>]
                       else iss)
           in (c1, (st, iss1)))
        else (c, (st, iss)))"

text \<open>The function mapped over the contacts: name, phone, role, department, email.\<close>

definition normalize_contact ::
  "NormalizationConfig \<Rightarrow> contact \<Rightarrow> progress \<Rightarrow> js_error + contact \<times> progress" where
  "normalize_contact cfg c pr =
     (let named = name_step cfg c pr;
          phoned = phone_step cfg (fst named) (snd named)
      in (case role_step cfg (fst phoned) (snd phoned) of
            Inl e \<Rightarrow> Inl e
          | Inr roled \<Rightarrow>
              (let inferred = department_step cfg (fst roled) (snd roled)
               in Inr (email_step (fst inferred) (snd inferred)))))"

text \<open>\<open>result.contacts.map(...)\<close>, which stops at the first contact that fails.\<close>

fun normalize_contacts ::
  "NormalizationConfig \<Rightarrow> contact list \<Rightarrow> progress \<Rightarrow> js_error + contact list \<times> progress" where
  "normalize_contacts cfg [] pr = Inr ([], pr)"
| "normalize_contacts cfg (c # cs) pr =
     (case normalize_contact cfg c pr of
        Inl e \<Rightarrow> Inl e
      | Inr (c', pr') \<Rightarrow>
          (case normalize_contacts cfg cs pr' of
             Inl e \<Rightarrow> Inl e
           | Inr (cs', pr'') \<Rightarrow> Inr (c' # cs', pr'')))"

text \<open>The functions mapped over the emergency contacts and over the locations.\<close>

definition normalize_emergency :: "NormalizationConfig \<Rightarrow> emergency_contact \<Rightarrow> emergency_contact" where
  "normalize_emergency cfg ec =
     (if normalizePhones cfg \<and> truthy (ec_phone ec)
      then ec\<lparr>ec_phone := phone_normalize (ec_phone ec)\<rparr> else ec)"

definition normalize_location :: "NormalizationConfig \<Rightarrow> location \<Rightarrow> location" where
  "normalize_location cfg loc =
     (if normalizePhones cfg \<and> truthy (loc_phone loc)
      then loc\<lparr>loc_phone := phone_normalize (loc_phone loc)\<rparr> else loc)"

text \<open>
  \<open>NormalizationService.normalize\<close>, for a service built with the configuration \<open>cfg\<close>.
  The copy through JSON is the identity on the extraction type.
\<close>

definition normalize :: "NormalizationConfig \<Rightarrow> ExtractionResult \<Rightarrow> js_error + NormalizationResult" where
  "normalize cfg extraction =
     (let stats0 = \<lparr> phonesNormalized = 0, namesNormalized = 0, rolesNormalized = 0,
                     departmentsInferred = 0, duplicatesRemoved = 0,
                     totalContacts = length (contacts extraction) \<rparr>;
          result = extraction
      in (case normalize_contacts cfg (contacts result) (stats0, []) of
            Inl e \<Rightarrow> Inl e
          | Inr done \<Rightarrow>
              (let cs = fst done;
                   stats1 = fst (snd done);
                   issues1 = snd (snd done);
                   deduped = deduplicate cs;
                   cs' = (if deduplicate_on cfg then fst deduped else cs);
                   stats2 = (if deduplicate_on cfg
                             then stats1\<lparr>duplicatesRemoved := snd deduped\<rparr> else stats1);
                   result1 = result\<lparr> contacts := cs',
                     emergency_contacts := map (normalize_emergency cfg) (emergency_contacts result),
                     locations := map (normalize_location cfg) (locations result) \<rparr>;
                   stats3 = stats2\<lparr>totalContacts := length (contacts result1)\<rparr>
               in Inr \<lparr> data = result1, stats = stats3, issues = issues1 \<rparr>)))"

section \<open>Extraction validator\<close>

record ValidationIssues =
  v_field :: string
  v_message :: string
  v_severity :: severity

text \<open>\<open>validateExtraction\<close>\<close>

definition validateExtraction :: "ExtractionResult \<Rightarrow> ValidationIssues list" where
  "validateExtraction d =
     (if length (contacts d) = 0
      then [\<lparr> v_field = ''contacts'',
               v_message = ''No contacts were extracted. This might be a parsing error.'',
               v_severity = Warning \<rparr>]
      else [])"

section \<open>Document types\<close>

datatype DocumentType = Pdf | Image | Text | Unknown

datatype Strategy = TextExtraction | Vision | DirectText

record DocumentMetadata =
  originalFilename :: string
  mimeType :: string
  size_bytes :: nat
  pageCount :: "int option"

text \<open>An optional property that is absent is \<open>None\<close>.\<close>

record ProcessedDocument =
  doc_type :: DocumentType
  textContent :: "string option"
  images :: "string list option"
  metadata :: DocumentMetadata
  strategy :: Strategy
  requiresVision :: bool

text \<open>
  A \<open>ProcessorResult\<close> is built in two shapes only: \<open>success: true\<close> with a document, and
  \<open>success: false\<close> with an error message.
\<close>

datatype ProcessorResult = Success ProcessedDocument | Failure string

section \<open>What the processors call\<close>

text \<open>
  The outcome of every call that leaves the program during one \<open>process\<close> call: Node's
  \<open>Buffer\<close> and \<open>decodeURIComponent\<close>, the file system, the Poppler commands, mammoth and
  xlsx. A call that throws has the message of the error as its outcome.
\<close>

record environment =
  base64_length :: "string \<Rightarrow> nat"
  base64_utf8 :: "string \<Rightarrow> string"
  decodeURIComponent :: "string \<Rightarrow> string + string"
  mkdir :: "string option"
  writeFile :: "string option"
  pdfinfo_pages :: "int option"
  pdftotext :: "string option"
  pdftoppm :: "int \<Rightarrow> bool"
  readdir :: "int \<Rightarrow> string list option"
  readFile_base64 :: "string \<Rightarrow> string option"
  extractRawText :: "string \<Rightarrow> string + string"
  xlsx_read :: "string \<Rightarrow> string + (string \<times> string list list) list"

text \<open>
  \<^item> \<open>base64_length b\<close> is \<open>Buffer.from(b, "base64").length\<close> and \<open>base64_utf8 b\<close> is
    \<open>Buffer.from(b, "base64").toString("utf-8")\<close>;
  \<^item> \<open>decodeURIComponent\<close>, \<open>extractRawText\<close> (the \<open>value\<close> of mammoth's result) and
    \<open>xlsx_read\<close> are \<open>Inl\<close> of the message when they throw; a workbook is the list of its
    sheet names, each with the rows that \<open>sheet_to_json\<close> returns for it;
  \<^item> \<open>mkdir\<close> and \<open>writeFile\<close> are the message when they throw and \<open>None\<close> otherwise;
  \<^item> \<open>pdfinfo_pages\<close> is the integer that \<open>parseInt\<close> reads in the output of the
    \<open>pdfinfo\<close> pipeline, \<open>None\<close> when the command fails or the output is no number;
  \<^item> \<open>pdftotext\<close> is the standard output of the command, \<open>None\<close> when it fails;
  \<^item> \<open>pdftoppm l\<close> tells whether the command run with the last page \<open>l\<close> succeeds, and
    \<open>readdir l\<close> lists the working directory after that run, \<open>None\<close> when it throws;
  \<^item> \<open>readFile_base64 f\<close> is the content of the file in base64, \<open>None\<close> when reading throws.
\<close>

section \<open>Matching data URLs\<close>

definition strip_prefix :: "string \<Rightarrow> string \<Rightarrow> string option" where
  "strip_prefix p s = (if startsWith s p then Some (drop (length p) s) else None)"

text \<open>\<open>(.+)$\<close>: the rest of the string, not empty and without a line terminator.\<close>

definition dot_plus_end :: "string \<Rightarrow> bool" where
  "dot_plus_end s = (s \<noteq> [] \<and> \<not> list_ex is_line_terminator s)"

text \<open>
  A pattern \<open>^pre C+ mid\<close> where no character of the class \<open>C\<close> is the first character
  of \<open>mid\<close>: the run of \<open>C\<close> is the longest one. The result is the run and what follows
  \<open>mid\<close>.
\<close>

definition match_run :: "string \<Rightarrow> (char \<Rightarrow> bool) \<Rightarrow> string \<Rightarrow> string \<Rightarrow> (string \<times> string) option" where
  "match_run pre cls mid s =
     (case strip_prefix pre s of
        None \<Rightarrow> None
      | Some r \<Rightarrow>
          if takeWhile cls r = [] then None
          else (case strip_prefix mid (dropWhile cls r) of
                  None \<Rightarrow> None
                | Some rest \<Rightarrow> Some (takeWhile cls r, rest)))"

text \<open>\<^verbatim>\<open>/^data:application\/pdf;base64,(.+)$/\<close>, with its capture.\<close>

definition match_pdf :: "string \<Rightarrow> string option" where
  "match_pdf s =
     (case strip_prefix ''data:application/pdf;base64,'' s of
        None \<Rightarrow> None
      | Some rest \<Rightarrow> if dot_plus_end rest then Some rest else None)"

text \<open>\<^verbatim>\<open>/^data:[^;]+;base64,(.+)$/\<close>, with its capture.\<close>

definition match_base64 :: "string \<Rightarrow> string option" where
  "match_base64 s =
     (case match_run ''data:'' (\<lambda>c. c \<noteq> CHR '';'') '';base64,'' s of
        None \<Rightarrow> None
      | Some m \<Rightarrow> if dot_plus_end (snd m) then Some (snd m) else None)"

text \<open>\<^verbatim>\<open>/^data:text\/[^;]+;base64,(.+)$/\<close>, with its capture.\<close>

definition match_text_base64 :: "string \<Rightarrow> string option" where
  "match_text_base64 s =
     (case match_run ''data:text/'' (\<lambda>c. c \<noteq> CHR '';'') '';base64,'' s of
        None \<Rightarrow> None
      | Some m \<Rightarrow> if dot_plus_end (snd m) then Some (snd m) else None)"

text \<open>\<^verbatim>\<open>/^data:text\/[^,]+,(.+)$/\<close>, with its capture.\<close>

definition match_text_plain :: "string \<Rightarrow> string option" where
  "match_text_plain s =
     (case match_run ''data:text/'' (\<lambda>c. c \<noteq> CHR '','') '','' s of
        None \<Rightarrow> None
      | Some m \<Rightarrow> if dot_plus_end (snd m) then Some (snd m) else None)"

text \<open>\<^verbatim>\<open>/^data:(image\/[a-z]+);base64,/\<close>, with its capture.\<close>

definition is_lower_az :: "char \<Rightarrow> bool" where
  "is_lower_az c = (97 \<le> code_unit c \<and> code_unit c \<le> 122)"

definition match_image :: "string \<Rightarrow> string option" where
  "match_image s =
     (case match_run ''data:image/'' is_lower_az '';base64,'' s of
        None \<Rightarrow> None
      | Some m \<Rightarrow> Some (''image/'' @ fst m))"

section \<open>Numbers in messages\<close>

text \<open>A natural number in decimal, as a template literal prints it.\<close>

definition digit_char :: "nat \<Rightarrow> char" where
  "digit_char n = ''0123456789'' ! (n mod 10)"

function decimal :: "nat \<Rightarrow> string" where
  "decimal n = (if n < 10 then [digit_char n] else decimal (n div 10) @ [digit_char (n mod 10)])"
  by pat_completeness auto
termination
  by (relation "measure id") auto

text \<open>
  \<open>(approximateSize / 1024 / 1024).toFixed(1)\<close>. The quotient by \<open>2 ^ 20\<close> is exact in
  floating point, and \<open>toFixed(1)\<close> rounds its tenfold to the nearest integer, the larger
  one at a tie.
\<close>

definition megabytes_toFixed1 :: "nat \<Rightarrow> string" where
  "megabytes_toFixed1 n =
     (let tenths = (20 * n + 1048576) div 2097152
      in decimal (tenths div 10) @ ''.'' @ decimal (tenths mod 10))"

section \<open>PDF processor\<close>

definition MIN_TEXT_LENGTH_THRESHOLD :: nat where
  "MIN_TEXT_LENGTH_THRESHOLD = 100"

definition MAX_PAGES_FOR_VISION :: int where
  "MAX_PAGES_FOR_VISION = 5"

text \<open>\<open>PdfProcessor.canProcess\<close>\<close>

definition pdf_canProcess :: "string \<Rightarrow> string option \<Rightarrow> bool" where
  "pdf_canProcess dataUrl mimeTypeHint =
     (startsWith dataUrl ''data:application/pdf'' \<or> mimeTypeHint = Some ''application/pdf'')"

text \<open>\<open>PdfProcessor.getPageCount\<close>\<close>

definition getPageCount :: "environment \<Rightarrow> int" where
  "getPageCount env = (case pdfinfo_pages env of None \<Rightarrow> 1 | Some n \<Rightarrow> n)"

text \<open>\<open>PdfProcessor.extractText\<close>\<close>

definition extractText :: "environment \<Rightarrow> string" where
  "extractText env = (case pdftotext env of None \<Rightarrow> [] | Some stdout \<Rightarrow> stdout)"

text \<open>The loop of \<open>convertToImages\<close> that reads the image files; one failed read ends it.\<close>

fun read_images :: "environment \<Rightarrow> string list \<Rightarrow> string list option" where
  "read_images env [] = Some []"
| "read_images env (imageFile # others) =
     (case readFile_base64 env imageFile of
        None \<Rightarrow> None
      | Some b64 \<Rightarrow>
          (case read_images env others of
             None \<Rightarrow> None
           | Some urls \<Rightarrow> Some ((''data:image/png;base64,'' @ b64) # urls)))"

text \<open>
  \<open>PdfProcessor.convertToImages\<close>. Everything thrown inside is caught, and the result is
  then the empty list. The default \<open>sort()\<close> orders strings by their code units.
\<close>

definition is_page_png :: "string \<Rightarrow> bool" where
  "is_page_png f = (startsWith f ''page'' \<and> endsWith f ''.png'')"

definition convertToImages :: "environment \<Rightarrow> int \<Rightarrow> string list" where
  "convertToImages env pages =
     (let pagesToConvert = min pages MAX_PAGES_FOR_VISION
      in if \<not> pdftoppm env pagesToConvert then []
         else (case readdir env pagesToConvert of
                 None \<Rightarrow> []
               | Some files \<Rightarrow>
                   (let imageFiles = sort (filter is_page_png files)
                    in (case read_images env imageFiles of None \<Rightarrow> [] | Some urls \<Rightarrow> urls))))"

text \<open>The \<open>catch\<close> block of \<open>PdfProcessor.process\<close>, for an error with the given message.\<close>

definition pdf_catch :: "string \<Rightarrow> ProcessorResult" where
  "pdf_catch msg =
     (if str_includes msg ''not found'' \<or> str_includes msg ''ENOENT''
      then Failure ''PDF processing tools not installed. Please install poppler-utils.''
      else Failure (''PDF processing failed: '' @ msg))"

text \<open>\<open>PdfProcessor.process\<close>\<close>

definition pdf_process :: "environment \<Rightarrow> string \<Rightarrow> string \<Rightarrow> ProcessorResult" where
  "pdf_process env dataUrl filename =
     (case mkdir env of
        Some msg \<Rightarrow> pdf_catch msg
      | None \<Rightarrow>
          (case match_pdf dataUrl of
             None \<Rightarrow> Failure ''Invalid PDF data URL format''
           | Some b64 \<Rightarrow>
               (case writeFile env of
                  Some msg \<Rightarrow> pdf_catch msg
                | None \<Rightarrow>
                    (let pages = getPageCount env;
                         extracted = extractText env;
                         hasSignificantText = (length (trim extracted) \<ge> MIN_TEXT_LENGTH_THRESHOLD)
                     in if hasSignificantText then
                          Success \<lparr> doc_type = Pdf, textContent = Some extracted, images = None,
                            metadata = \<lparr> originalFilename = filename, mimeType = ''application/pdf'',
                                         size_bytes = base64_length env b64,
                                         pageCount = Some pages \<rparr>,
                            strategy = TextExtraction, requiresVision = False \<rparr>
                        else
                          (let imgs = convertToImages env pages
                           in if length imgs = 0 then
                                Failure ''Failed to convert PDF to images. The file may be corrupted.''
                              else
                                Success \<lparr> doc_type = Pdf, textContent = None, images = Some imgs,
                                  metadata = \<lparr> originalFilename = filename,
                                               mimeType = ''application/pdf'',
                                               size_bytes = base64_length env b64,
                                               pageCount = Some pages \<rparr>,
                                  strategy = Vision, requiresVision = True \<rparr>)))))"

section \<open>Word processor\<close>

text \<open>\<open>MIN_TEXT_LENGTH\<close> and \<open>MAX_TEXT_LENGTH\<close> of the Word and the Excel processor.\<close>

definition OFFICE_MIN_TEXT_LENGTH :: nat where
  "OFFICE_MIN_TEXT_LENGTH = 50"

definition MAX_TEXT_LENGTH :: nat where
  "MAX_TEXT_LENGTH = 50000"

definition newline :: char where
  "newline = CHR 0x0A"

definition office_truncation_marker :: string where
  "office_truncation_marker =
     [newline, newline] @ ''[Document truncated - showing first 50,000 characters]''"

text \<open>\<open>WordProcessor.canProcess\<close>\<close>

definition word_canProcess :: "string \<Rightarrow> string option \<Rightarrow> bool" where
  "word_canProcess dataUrl mimeTypeHint =
     (startsWith dataUrl ''data:application/vnd.openxmlformats-officedocument.wordprocessingml'' \<or>
      mimeTypeHint = Some ''application/vnd.openxmlformats-officedocument.wordprocessingml.document'' \<or>
      mimeTypeHint = Some ''application/msword'')"

text \<open>\<open>WordProcessor.process\<close>\<close>

definition word_process :: "environment \<Rightarrow> string \<Rightarrow> string \<Rightarrow> ProcessorResult" where
  "word_process env dataUrl filename =
     (case match_base64 dataUrl of
        None \<Rightarrow> Failure ''Invalid Word document data URL format''
      | Some b64 \<Rightarrow>
          (case extractRawText env b64 of
             Inl msg \<Rightarrow> Failure (''Word document processing failed: '' @ msg)
           | Inr extracted \<Rightarrow>
               if length (trim extracted) < OFFICE_MIN_TEXT_LENGTH then
                 Failure (''Word document has insufficient text content ('' @
                          decimal (length (trim extracted)) @ '' characters).'')
               else
                 (let truncated =
                        (if length extracted > MAX_TEXT_LENGTH
                         then substring extracted 0 MAX_TEXT_LENGTH @ office_truncation_marker
                         else extracted)
                  in Success \<lparr> doc_type = Text, textContent = Some truncated, images = None,
                       metadata = \<lparr> originalFilename = filename,
                         mimeType = ''application/vnd.openxmlformats-officedocument.wordprocessingml.document'',
                         size_bytes = base64_length env b64, pageCount = None \<rparr>,
                       strategy = TextExtraction, requiresVision = False \<rparr>)))"

section \<open>Excel processor\<close>

text \<open>\<open>ExcelProcessor.canProcess\<close>\<close>

definition excel_canProcess :: "string \<Rightarrow> string option \<Rightarrow> bool" where
  "excel_canProcess dataUrl mimeTypeHint =
     (startsWith dataUrl ''data:application/vnd.openxmlformats-officedocument.spreadsheetml'' \<or>
      startsWith dataUrl ''data:application/vnd.ms-excel'' \<or>
      mimeTypeHint = Some ''application/vnd.openxmlformats-officedocument.spreadsheetml.sheet'' \<or>
      mimeTypeHint = Some ''application/vnd.ms-excel'')"

text \<open>\<open>ExcelProcessor.formatSheetAsText\<close>, for cells that are strings.\<close>

definition formatSheetAsText :: "string \<Rightarrow> string list list \<Rightarrow> string" where
  "formatSheetAsText sheetName rows =
     (let kept = filter (\<lambda>row. \<not> list_all (\<lambda>cell. cell = [] \<or> trim cell = []) row) rows;
          lines = [''=== Sheet: '' @ sheetName @ '' ==='', []] @
                  map (\<lambda>row. join '' | '' (map trim row)) kept
      in join [newline] lines)"

text \<open>The loop over the sheets of \<open>ExcelProcessor.process\<close>, which collects \<open>textParts\<close>.\<close>

fun sheet_texts :: "(string \<times> string list list) list \<Rightarrow> string list" where
  "sheet_texts [] = []"
| "sheet_texts ((sheetName, rows) # others) =
     (if length rows = 0 then sheet_texts others
      else (let sheetText = formatSheetAsText sheetName rows
            in if trim sheetText \<noteq> [] then sheetText # sheet_texts others
               else sheet_texts others))"

text \<open>\<open>ExcelProcessor.process\<close>\<close>

definition excel_process :: "environment \<Rightarrow> string \<Rightarrow> string \<Rightarrow> ProcessorResult" where
  "excel_process env dataUrl filename =
     (case match_base64 dataUrl of
        None \<Rightarrow> Failure ''Invalid Excel document data URL format''
      | Some b64 \<Rightarrow>
          (case xlsx_read env b64 of
             Inl msg \<Rightarrow> Failure (''Excel document processing failed: '' @ msg)
           | Inr workbook \<Rightarrow>
               if length workbook = 0 then Failure ''Excel file contains no sheets''
               else
                 (let joined = join ([newline, newline] @ ''---'' @ [newline, newline])
                                    (sheet_texts workbook)
                  in if length (trim joined) < OFFICE_MIN_TEXT_LENGTH then
                       Failure (''Excel file has insufficient data ('' @
                                decimal (length (trim joined)) @
                                '' characters). The file may be empty or contain only formatting.'')
                     else
                       (let truncated =
                              (if length joined > MAX_TEXT_LENGTH
                               then substring joined 0 MAX_TEXT_LENGTH @ office_truncation_marker
                               else joined)
                        in Success \<lparr> doc_type = Text, textContent = Some truncated, images = None,
                             metadata = \<lparr> originalFilename = filename,
                               mimeType = ''application/vnd.openxmlformats-officedocument.spreadsheetml.sheet'',
                               size_bytes = base64_length env b64, pageCount = None \<rparr>,
                             strategy = TextExtraction, requiresVision = False \<rparr>))))"

section \<open>Image processor\<close>

definition SUPPORTED_IMAGE_TYPES :: "string list" where
  "SUPPORTED_IMAGE_TYPES =
     [''image/png'', ''image/jpeg'', ''image/jpg'', ''image/gif'', ''image/webp'']"

definition MAX_IMAGE_SIZE :: nat where
  "MAX_IMAGE_SIZE = 20 * 1024 * 1024"

text \<open>\<open>ImageProcessor.canProcess\<close>\<close>

definition image_canProcess :: "string \<Rightarrow> string option \<Rightarrow> bool" where
  "image_canProcess dataUrl mimeTypeHint =
     (if startsWith dataUrl ''data:image/'' then True
      else if truthy mimeTypeHint \<and> the mimeTypeHint \<in> set SUPPORTED_IMAGE_TYPES then True
      else False)"

text \<open>
  \<open>ImageProcessor.process\<close>. A URL that matches has a comma, so \<open>dataUrl.split(",")[1]\<close> is
  the second element of the split.
\<close>

definition image_process :: "environment \<Rightarrow> string \<Rightarrow> string \<Rightarrow> ProcessorResult" where
  "image_process env dataUrl filename =
     (case match_image dataUrl of
        None \<Rightarrow> Failure ''Invalid image data URL format''
      | Some mime \<Rightarrow>
          if mime \<notin> set SUPPORTED_IMAGE_TYPES then
            Failure (''Unsupported image type: '' @ mime @ ''. Supported: PNG, JPG, GIF, WebP'')
          else
            (let base64Data = split (CHR '','') dataUrl ! 1;
                 approximateSize = (length base64Data * 3 + 3) div 4
             in if approximateSize > MAX_IMAGE_SIZE then
                  Failure (''Image too large ('' @ megabytes_toFixed1 approximateSize @
                           ''MB). Maximum size is 20MB.'')
                else
                  Success \<lparr> doc_type = Image, textContent = None, images = Some [dataUrl],
                    metadata = \<lparr> originalFilename = filename, mimeType = mime,
                                 size_bytes = approximateSize, pageCount = None \<rparr>,
                    strategy = Vision, requiresVision = True \<rparr>))"

section \<open>Text processor\<close>

definition TEXT_MIN_TEXT_LENGTH :: nat where
  "TEXT_MIN_TEXT_LENGTH = 10"

text \<open>\<open>TextProcessor.canProcess\<close>\<close>

definition text_canProcess :: "string \<Rightarrow> string option \<Rightarrow> bool" where
  "text_canProcess dataUrl mimeTypeHint =
     (if \<not> startsWith dataUrl ''data:'' then True
      else if startsWith dataUrl ''data:text/'' then True
      else if (case mimeTypeHint of None \<Rightarrow> False | Some m \<Rightarrow> startsWith m ''text/'') then True
      else False)"

text \<open>
  \<open>text.lastIndexOf(pattern, position)\<close>: the last index, not above the position, at which
  the pattern starts, and \<open>-1\<close> when there is none.
\<close>

definition lastIndexOf :: "string \<Rightarrow> string \<Rightarrow> int \<Rightarrow> int" where
  "lastIndexOf s pat position =
     (let start = min (nat position) (length s - length pat)
      in case filter (\<lambda>k. startsWith (drop k s) pat) (rev [0..<Suc start]) of
           [] \<Rightarrow> - 1
         | k # ks \<Rightarrow> int k)"

definition truncation_notice :: string where
  "truncation_notice =
     [newline, newline] @
     ''[Document truncated - showing first ~50,000 characters. Contact information is typically in the first section.]''"

text \<open>
  \<open>TextProcessor.smartTruncate\<close>. The only call has \<open>maxLength = 50000\<close>, where
  \<open>targetLength * 0.7\<close> is the integer 34930, so that \<open>breakPoint < targetLength * 0.7\<close>
  is the comparison of integers below.
\<close>

definition too_early :: "int \<Rightarrow> int \<Rightarrow> bool" where
  "too_early breakPoint targetLength = (breakPoint = - 1 \<or> 10 * breakPoint < 7 * targetLength)"

definition smartTruncate :: "string \<Rightarrow> nat \<Rightarrow> string" where
  "smartTruncate s maxLength =
     (if length s \<le> maxLength then s
      else
        (let targetLength = int maxLength - 100;
             b1 = lastIndexOf s [newline, newline] targetLength;
             b2 = (if too_early b1 targetLength then lastIndexOf s [newline] targetLength else b1);
             b3 = (if too_early b2 targetLength
                   then (let b = lastIndexOf s ''. '' targetLength in if b \<noteq> - 1 then b + 1 else b)
                   else b2);
             b4 = (if too_early b3 targetLength then targetLength else b3)
         in trim (substring s 0 (nat b4)) @ truncation_notice))"

text \<open>The text that \<open>TextProcessor.process\<close> validates, or the message of what was thrown.\<close>

definition text_decode :: "environment \<Rightarrow> string \<Rightarrow> string + string" where
  "text_decode env dataUrl =
     (if startsWith dataUrl ''data:text/'' then
        (case match_text_base64 dataUrl of
           Some b64 \<Rightarrow> Inr (base64_utf8 env b64)
         | None \<Rightarrow>
             (case match_text_plain dataUrl of
                Some encoded \<Rightarrow> decodeURIComponent env encoded
              | None \<Rightarrow> Inr dataUrl))
      else Inr dataUrl)"

text \<open>\<open>TextProcessor.process\<close>\<close>

definition text_process :: "environment \<Rightarrow> string \<Rightarrow> string \<Rightarrow> ProcessorResult" where
  "text_process env dataUrl filename =
     (case text_decode env dataUrl of
        Inl msg \<Rightarrow> Failure (''Text processing failed: '' @ msg)
      | Inr decoded \<Rightarrow>
          if length (trim decoded) < TEXT_MIN_TEXT_LENGTH then
            Failure ''Text content too short. Please provide at least 10 characters.''
          else
            (let truncated =
                   (if length decoded > MAX_TEXT_LENGTH then smartTruncate decoded MAX_TEXT_LENGTH
                    else decoded)
             in Success \<lparr> doc_type = Text, textContent = Some truncated, images = None,
                  metadata = \<lparr> originalFilename = filename, mimeType = ''text/plain'',
                               size_bytes = length truncated, pageCount = None \<rparr>,
                  strategy = DirectText, requiresVision = False \<rparr>))"

section \<open>Document processing service\<close>

datatype Processor = PdfProcessor | WordProcessor | ExcelProcessor | ImageProcessor | TextProcessor

text \<open>The two methods of the \<open>DocumentProcessor\<close> interface.\<close>

fun canProcess :: "Processor \<Rightarrow> string \<Rightarrow> string option \<Rightarrow> bool" where
  "canProcess PdfProcessor = pdf_canProcess"
| "canProcess WordProcessor = word_canProcess"
| "canProcess ExcelProcessor = excel_canProcess"
| "canProcess ImageProcessor = image_canProcess"
| "canProcess TextProcessor = text_canProcess"

fun processor_process :: "environment \<Rightarrow> Processor \<Rightarrow> string \<Rightarrow> string \<Rightarrow> ProcessorResult" where
  "processor_process env PdfProcessor = pdf_process env"
| "processor_process env WordProcessor = word_process env"
| "processor_process env ExcelProcessor = excel_process env"
| "processor_process env ImageProcessor = image_process env"
| "processor_process env TextProcessor = text_process env"

text \<open>The list that the constructor of \<open>DocumentProcessingService\<close> registers.\<close>

definition processors :: "Processor list" where
  "processors = [PdfProcessor, WordProcessor, ExcelProcessor, ImageProcessor, TextProcessor]"

text \<open>\<open>DocumentProcessingService.detectType\<close>\<close>

definition hint_startsWith :: "string option \<Rightarrow> string \<Rightarrow> bool" where
  "hint_startsWith mimeTypeHint p = (case mimeTypeHint of None \<Rightarrow> False | Some m \<Rightarrow> startsWith m p)"

definition detectType :: "string \<Rightarrow> string option \<Rightarrow> DocumentType" where
  "detectType content mimeTypeHint =
     (if startsWith content ''data:application/pdf'' \<or> mimeTypeHint = Some ''application/pdf''
        then Pdf
      else if startsWith content ''data:image/'' \<or> hint_startsWith mimeTypeHint ''image/''
        then Image
      else if startsWith content ''data:text/'' \<or> hint_startsWith mimeTypeHint ''text/'' \<or>
              \<not> startsWith content ''data:''
        then Text
      else Unknown)"

definition unsupported_format :: string where
  "unsupported_format =
     ''Unsupported document format. Supported formats: PDF, Word (.docx), Excel (.xlsx), PNG, JPG, GIF, WebP, plain text.''"

text \<open>The loop of \<open>DocumentProcessingService.process\<close> over the registered processors.\<close>

fun process_loop ::
  "environment \<Rightarrow> Processor list \<Rightarrow> string \<Rightarrow> string \<Rightarrow> string option \<Rightarrow> ProcessorResult" where
  "process_loop env [] content filename mimeTypeHint = Failure unsupported_format"
| "process_loop env (p # ps) content filename mimeTypeHint =
     (if canProcess p content mimeTypeHint then processor_process env p content filename
      else process_loop env ps content filename mimeTypeHint)"

text \<open>\<open>DocumentProcessingService.process\<close>\<close>

definition process :: "environment \<Rightarrow> string \<Rightarrow> string \<Rightarrow> string option \<Rightarrow> ProcessorResult" where
  "process env content filename mimeTypeHint =
     process_loop env processors content filename mimeTypeHint"

section \<open>The phone format in the words of the specification\<close>

text \<open>
  The ten-digit format \<open>(AAA) EEE-SSSS\<close>: the first three digits, the next three, and the
  rest.
\<close>

definition us_format :: "string \<Rightarrow> string" where
  "us_format d = ''('' @ take 3 d @ '') '' @ take 3 (drop 3 d) @ ''-'' @ drop 6 d"

text \<open>
  The branches on the digit count \<open>d\<close> of the input, as the specification lists them: ten
  digits; eleven digits that start with 1; more than eleven digits; seven digits; any other
  count.
\<close>

definition format_by_count :: "string \<Rightarrow> string" where
  "format_by_count d =
     (if length d = 10 then us_format d
      else if length d = 11 \<and> hd d = CHR ''1'' then us_format (tl d)
      else if length d > 11 then ''+'' @ d
      else if length d = 7 then take 3 d @ ''-'' @ drop 3 d
      else d)"

section \<open>The end-to-end scenario\<close>

text \<open>The two contacts of the scenario, with any confidences.\<close>

definition scenario_contacts :: "real option \<Rightarrow> real option \<Rightarrow> contact list" where
  "scenario_contacts k1 k2 =
     [\<lparr> name = ''dave o'neil'', role = Some ''dp'', department = None,
        phone = Some ''5551234567'', email = None, notes = None, confidence = k1 \<rparr>,
      \<lparr> name = ''Dave O'Neil'', role = None, department = None,
        phone = Some ''555-123-4567'', email = None, notes = None, confidence = k2 \<rparr>]"

section \<open>Extractions used as examples\<close>

text \<open>
  An extraction whose contact, emergency contact and location have the same phone \<open>p\<close>, and
  the same extraction with the three phones \<open>null\<close>.
\<close>

definition digitless_extraction ::
  "production_info \<Rightarrow> real option \<Rightarrow> string \<Rightarrow> ExtractionResult" where
  "digitless_extraction info k p =
     \<lparr> production_info = info,
       contacts = [\<lparr> name = ''Ann Lee'', role = None, department = None, phone = Some p,
                     email = None, notes = None, confidence = k \<rparr>],
       emergency_contacts = [\<lparr> ec_type = ''Hospital'', ec_name = None, ec_phone = Some p \<rparr>],
       locations = [\<lparr> loc_name = None, loc_address = None, loc_phone = Some p \<rparr>] \<rparr>"

definition erased_extraction :: "production_info \<Rightarrow> real option \<Rightarrow> ExtractionResult" where
  "erased_extraction info k =
     \<lparr> production_info = info,
       contacts = [\<lparr> name = ''Ann Lee'', role = None, department = None, phone = None,
                     email = None, notes = None, confidence = k \<rparr>],
       emergency_contacts = [\<lparr> ec_type = ''Hospital'', ec_name = None, ec_phone = None \<rparr>],
       locations = [\<lparr> loc_name = None, loc_address = None, loc_phone = None \<rparr>] \<rparr>"

text \<open>An extraction without contacts, emergency contacts and locations.\<close>

definition empty_extraction :: ExtractionResult where
  "empty_extraction =
     \<lparr> production_info = \<lparr> title = None, production_company = None, shoot_date = None \<rparr>,
       contacts = [], emergency_contacts = [], locations = [] \<rparr>"

text \<open>The call returns, and its issues contain a warning.\<close>

definition has_warning :: "js_error + NormalizationResult \<Rightarrow> bool" where
  "has_warning outcome =
     (case outcome of
        Inl e \<Rightarrow> False
      | Inr r \<Rightarrow> list_ex (\<lambda>i. issue_type i = Warning) (issues r))"

text \<open>
  The result of the end-to-end scenario with nothing but the two contacts, and the result
  of \<open>normalize\<close> on the data of that result.
\<close>

definition first_run :: NormalizationResult where
  "first_run =
     \<lparr> data =
         \<lparr> production_info = \<lparr> title = None, production_company = None, shoot_date = None \<rparr>,
           contacts =
             [\<lparr> name = ''Dave O'Neil'', role = Some ''Director of Photography'',
                department = Some ''Camera'', phone = Some ''(555) 123-4567'',
                email = None, notes = None, confidence = None \<rparr>],
           emergency_contacts = [], locations = [] \<rparr>,
       stats =
         \<lparr> phonesNormalized = 2, namesNormalized = 1, rolesNormalized = 1,
           departmentsInferred = 1, duplicatesRemoved = 1, totalContacts = 1 \<rparr>,
       issues = [] \<rparr>"

definition second_run :: NormalizationResult where
  "second_run =
     \<lparr> data =
         \<lparr> production_info = \<lparr> title = None, production_company = None, shoot_date = None \<rparr>,
           contacts =
             [\<lparr> name = ''Dave O'Neil'', role = Some ''Photographer'',
                department = Some ''Camera'', phone = Some ''(555) 123-4567'',
                email = None, notes = None, confidence = None \<rparr>],
           emergency_contacts = [], locations = [] \<rparr>,
       stats =
         \<lparr> phonesNormalized = 0, namesNormalized = 0, rolesNormalized = 1,
           departmentsInferred = 0, duplicatesRemoved = 0, totalContacts = 1 \<rparr>,
       issues = [] \<rparr>"

section \<open>The routing in the words of the specification\<close>

text \<open>The PDF, the image and the text marker or hint of \<open>detectType\<close>.\<close>

definition pdf_marked :: "string \<Rightarrow> string option \<Rightarrow> bool" where
  "pdf_marked content mimeTypeHint =
     (startsWith content ''data:application/pdf'' \<or> mimeTypeHint = Some ''application/pdf'')"

definition image_marked :: "string \<Rightarrow> string option \<Rightarrow> bool" where
  "image_marked content mimeTypeHint =
     (startsWith content ''data:image/'' \<or> hint_startsWith mimeTypeHint ''image/'')"

definition text_marked :: "string \<Rightarrow> string option \<Rightarrow> bool" where
  "text_marked content mimeTypeHint =
     (startsWith content ''data:text/'' \<or> hint_startsWith mimeTypeHint ''text/'' \<or>
      \<not> startsWith content ''data:'')"

text \<open>The first processor, in the order PDF, Word, Excel, Image, Text, that can process.\<close>

definition first_match :: "string \<Rightarrow> string option \<Rightarrow> Processor option" where
  "first_match content mimeTypeHint =
     find (\<lambda>p. canProcess p content mimeTypeHint)
       [PdfProcessor, WordProcessor, ExcelProcessor, ImageProcessor, TextProcessor]"

section \<open>Environments used as examples\<close>

text \<open>
  A scanned PDF of two pages: no text but the two form feeds, two page images that the
  directory lists out of order. The decoded length is that of padded base64. Mammoth and
  xlsx reject their input.
\<close>

definition sample_env :: environment where
  "sample_env =
     \<lparr> base64_length = (\<lambda>b. (length b div 4) * 3 - length (filter (\<lambda>c. c = CHR ''='') b)),
       base64_utf8 = (\<lambda>b. []),
       decodeURIComponent = (\<lambda>s. Inr s),
       mkdir = None,
       writeFile = None,
       pdfinfo_pages = Some 2,
       pdftotext = Some [CHR 0x0C, CHR 0x0C],
       pdftoppm = (\<lambda>l. True),
       readdir = (\<lambda>l. Some [''page-2.png'', ''input.pdf'', ''page-1.png'']),
       readFile_base64 = (\<lambda>f. if f = ''page-1.png'' then Some ''iVBORw0KGgoA'' else Some ''iVBORw0KGgoB''),
       extractRawText = (\<lambda>b. Inl ''Could not find file in options''),
       xlsx_read = (\<lambda>b. Inl ''Unsupported file'') \<rparr>"

section \<open>The PDF processor in the words of the specification\<close>

text \<open>
  The renderer, run for the pages 1 to \<open>l\<close>, leaves at most \<open>l\<close> page images in the working
  directory.
\<close>

definition renderer_within :: "environment \<Rightarrow> int \<Rightarrow> bool" where
  "renderer_within env l =
     (case readdir env l of
        None \<Rightarrow> True
      | Some files \<Rightarrow> length (filter is_page_png files) \<le> nat l)"

text \<open>
  The document of a successful PDF result: with the extracted text and no images it has
  the strategy \<open>text-extraction\<close> and needs no vision; with images and no text it has the
  strategy \<open>vision\<close> and needs vision.
\<close>

definition pdf_document ::
  "environment \<Rightarrow> string \<Rightarrow> string \<Rightarrow> string option \<Rightarrow> string list option \<Rightarrow> ProcessedDocument" where
  "pdf_document env b64 filename extracted imgs =
     \<lparr> doc_type = Pdf, textContent = extracted, images = imgs,
       metadata = \<lparr> originalFilename = filename, mimeType = ''application/pdf'',
                    size_bytes = base64_length env b64, pageCount = Some (getPageCount env) \<rparr>,
       strategy = (if imgs = None then TextExtraction else Vision),
       requiresVision = (imgs \<noteq> None) \<rparr>"

text \<open>
  A scanned PDF of 120 pages: the extracted text is one form feed for each page, and of
  the pages asked for the renderer writes two.
\<close>

definition blank_pages_env :: environment where
  "blank_pages_env =
     sample_env \<lparr> pdfinfo_pages := Some 120, pdftotext := Some (replicate 120 (CHR 0x0C)) \<rparr>"

section \<open>The shape of a processed document\<close>

text \<open>A property of the document is populated when it is present and not empty.\<close>

definition populated_text :: "ProcessedDocument \<Rightarrow> bool" where
  "populated_text doc = (case textContent doc of None \<Rightarrow> False | Some t \<Rightarrow> t \<noteq> [])"

definition populated_images :: "ProcessedDocument \<Rightarrow> bool" where
  "populated_images doc = (case images doc of None \<Rightarrow> False | Some urls \<Rightarrow> urls \<noteq> [])"

section \<open>Deduplication in the words of the specification\<close>

text \<open>The keys in the order in which they are first seen.\<close>

definition first_seen :: "'a list \<Rightarrow> 'a list" where
  "first_seen ks = rev (remdups (rev ks))"

text \<open>The contacts with the key \<open>k\<close>, in the order of the list.\<close>

definition group_of :: "contact list \<Rightarrow> string \<Rightarrow> contact list" where
  "group_of cs k = filter (\<lambda>c. generateKey c = k) cs"

text \<open>
  The record of a group: the first contact, with every later contact of the group merged
  into it in order. A group without a contact has no record.
\<close>

definition merged :: "contact list \<Rightarrow> contact option" where
  "merged g = (case g of [] \<Rightarrow> None | c # rest \<Rightarrow> Some (foldl mergeContacts c rest))"

text \<open>
  The three parts of a key: the lower-cased, trimmed name with its white space collapsed;
  the digits of the phone; the lower-cased, trimmed email. A part that is missing is empty.
\<close>

definition key_name :: "contact \<Rightarrow> string" where
  "key_name c = collapse_spaces (trim (toLowerCase (name c)))"

definition key_phone :: "contact \<Rightarrow> string" where
  "key_phone c = (case phone c of None \<Rightarrow> [] | Some p \<Rightarrow> filter is_digit p)"

definition key_email :: "contact \<Rightarrow> string" where
  "key_email c = (case email c of None \<Rightarrow> [] | Some e \<Rightarrow> trim (toLowerCase e))"

text \<open>The first of two values that is neither \<open>null\<close> nor the empty string.\<close>

definition first_present :: "string option \<Rightarrow> string option \<Rightarrow> string option" where
  "first_present a b = (if a \<noteq> None \<and> a \<noteq> Some [] then a else b)"

text \<open>
  The notes of a merge: both notes joined by a semicolon and a space when both are present
  and differ, and otherwise the one that is present.
\<close>

definition joined_notes :: "string option \<Rightarrow> string option \<Rightarrow> string option" where
  "joined_notes a b =
     (case (first_present a None, first_present b None) of
        (Some x, Some y) \<Rightarrow> if x = y then Some x else Some (x @ ''; '' @ y)
      | (Some x, None) \<Rightarrow> Some x
      | (None, Some y) \<Rightarrow> Some y
      | (None, None) \<Rightarrow> None)"

text \<open>The first of two values that is not \<open>null\<close>.\<close>

definition first_non_null :: "string option \<Rightarrow> string option \<Rightarrow> string option" where
  "first_non_null a b = (case a of None \<Rightarrow> b | Some v \<Rightarrow> Some v)"

text \<open>The two contacts of the example, and two contacts of which the first has an empty role.\<close>

definition john_smith :: contact where
  "john_smith =
     \<lparr> name = ''John Smith'', role = None, department = None, phone = Some ''555-123-4567'',
       email = None, notes = None, confidence = None \<rparr>"

definition john_smith_again :: contact where
  "john_smith_again =
     \<lparr> name = ''john smith'', role = None, department = None, phone = Some ''(555) 123-4567'',
       email = None, notes = None, confidence = None \<rparr>"

definition blank_role :: contact where
  "blank_role =
     \<lparr> name = ''Sam Lee'', role = Some [], department = None, phone = None,
       email = None, notes = None, confidence = None \<rparr>"

definition gaffer :: contact where
  "gaffer =
     \<lparr> name = ''Sam Lee'', role = Some ''Gaffer'', department = None, phone = None,
       email = None, notes = None, confidence = None \<rparr>"

section \<open>Notions for the name normalizer\<close>

text \<open>The upper case of a character whose upper case is one character.\<close>

definition upper_char :: "char \<Rightarrow> char" where
  "upper_char c = (if has_upper c then char_of (code_unit c - 32) else c)"




section \<open>Evaluation rules\<close>

lemmas char_defs = code_unit_def is_space_def is_digit_def is_alpha_def has_lower_def has_upper_def
  toLowerCase_char_def toUpperCase_char_def toLowerCase_def toUpperCase_def char_of_def
  bit_Suc_0_iff

lemmas string_defs = trim_def digits_of_def substring_def substring_from_def or_else_def

lemmas name_defs = name_normalize_def normalize_word_def capitalize_def specialPrefixes_def
  o_apostrophe_def lowercaseWords_def name_isValid_def

lemmas phone_defs = phone_normalize_def formatUS_def phone_isValid_def

lemmas role_defs = normalizeRole_def ROLE_MAPPINGS_get_def ROLE_MAPPINGS_def toTitleCase_def
  inferDepartment_def DEPARTMENT_KEYWORDS_def

lemmas dedup_defs = deduplicate_def dedup_step_def generateKey_def mergeContacts_def mergeNotes_def

lemmas service_defs = normalize_def normalize_contact_def name_step_def phone_step_def
  role_step_def department_step_def email_step_def DEFAULT_CONFIG_def

section \<open>The end-to-end scenario of the normalization service\<close>

text \<open>
  C1. Under the default configuration, \<open>normalize\<close> turns the two contacts of the scenario
  into the one contact Dave O'Neil, with the phone (555) 123-4567, the role Director of
  Photography and the department Camera, and counts one duplicate removed. The
  confidences of the two contacts and the other parts of the extraction are free; the
  merged contact has no confidence.
\<close>

theorem normalize_scenario:
  "normalize DEFAULT_CONFIG
     \<lparr> production_info = info, contacts = scenario_contacts k1 k2,
       emergency_contacts = ecs, locations = locs \<rparr> =
   Inr \<lparr> data =
           \<lparr> production_info = info,
             contacts =
               [\<lparr> name = ''Dave O'Neil'', role = Some ''Director of Photography'',
                  department = Some ''Camera'', phone = Some ''(555) 123-4567'',
                  email = None, notes = None, confidence = None \<rparr>],
             emergency_contacts = map (normalize_emergency DEFAULT_CONFIG) ecs,
             locations = map (normalize_location DEFAULT_CONFIG) locs \<rparr>,
         stats =
           \<lparr> phonesNormalized = 2, namesNormalized = 1, rolesNormalized = 1,
             departmentsInferred = 1, duplicatesRemoved = 1, totalContacts = 1 \<rparr>,
         issues = [] \<rparr>"
  by (simp add: scenario_contacts_def service_defs dedup_defs role_defs phone_defs name_defs
        string_defs char_defs)

section \<open>The phone normalizer\<close>

lemma digits_of_kept: "digits_of (filter (\<lambda>c. is_digit c \<or> c = CHR ''+'') p) = digits_of p"
  by (induction p) (auto simp: digits_of_def)

lemma startsWith_one: "startsWith d ''1'' = (d \<noteq> [] \<and> hd d = CHR ''1'')"
  by (cases d) auto

lemma phone_normalize_format:
  "phone_normalize (Some p) =
     (if digits_of p = [] then None else Some (format_by_count (digits_of p)))"
proof (cases "p = []")
  case True
  then show ?thesis by (simp add: phone_normalize_def digits_of_def)
next
  case False
  then show ?thesis
    by (auto simp: phone_normalize_def Let_def digits_of_kept startsWith_one format_by_count_def
          us_format_def formatUS_def substring_def substring_from_def drop_Suc)
qed

lemma phone_isValid_count:
  "phone_isValid (Some p) = (7 \<le> length (digits_of p) \<and> length (digits_of p) \<le> 15)"
  by (cases "p = []") (auto simp: phone_isValid_def Let_def digits_of_def)

text \<open>
  C3, as the code has it. For every string, \<open>normalize\<close> keeps the digits of the input and
  formats them by their count as the specification lists the branches, except that an
  input without any digit gives \<open>null\<close>; the three examples hold; and \<open>isValid\<close> accepts a
  string if and only if it has 7 to 15 digits, and rejects \<open>null\<close>.
\<close>

theorem phone_normalize_by_digit_count:
  "phone_normalize (Some p) =
     (if digits_of p = [] then None else Some (format_by_count (digits_of p))) \<and>
   phone_normalize (Some ''555-123-4567'') = Some ''(555) 123-4567'' \<and>
   phone_normalize (Some ''15551234567'') = Some ''(555) 123-4567'' \<and>
   phone_normalize (Some ''+442012345678'') = Some ''+442012345678'' \<and>
   phone_isValid (Some p) = (7 \<le> length (digits_of p) \<and> length (digits_of p) \<le> 15) \<and>
   \<not> phone_isValid None"
proof -
  have a: "phone_normalize (Some ''555-123-4567'') = Some ''(555) 123-4567''"
    by (simp add: phone_defs string_defs char_defs)
  have b: "phone_normalize (Some ''15551234567'') = Some ''(555) 123-4567''"
    by (simp add: phone_defs string_defs char_defs)
  have c: "phone_normalize (Some ''+442012345678'') = Some ''+442012345678''"
    by (simp add: phone_defs string_defs char_defs)
  have d: "\<not> phone_isValid None" by (simp add: phone_isValid_def)
  from a b c d phone_normalize_format phone_isValid_count show ?thesis by blast
qed

text \<open>
  C3, as the specification states it, fails for an input without digits: the string
  \<open>N/A\<close> has the digit count zero, which is none of the listed counts, so the stated result
  is the stripped digit string, the empty string; \<open>normalize\<close> returns \<open>null\<close>.
\<close>

theorem phone_normalize_no_digits_counterexample:
  "phone_normalize (Some ''N/A'') \<noteq> Some (format_by_count (digits_of ''N/A''))"
  by (simp add: phone_defs string_defs char_defs)

section \<open>Phones without digits\<close>

lemma no_digits_normalize: "\<not> list_ex is_digit p \<Longrightarrow> phone_normalize (Some p) = None"
proof -
  assume "\<not> list_ex is_digit p"
  then have "digits_of p = []"
    by (induction p) (auto simp: digits_of_def)
  then show ?thesis by (simp add: phone_normalize_format)
qed

lemma phone_step_erases:
  assumes "p \<noteq> []" "\<not> list_ex is_digit p" "normalizePhones cfg" "phone c = Some p"
  shows "phone_step cfg c (st, iss) =
           (c\<lparr>phone := None\<rparr>, (st\<lparr>phonesNormalized := phonesNormalized st + 1\<rparr>, iss))"
  using assms by (simp add: phone_step_def no_digits_normalize Let_def)

lemma emergency_erases:
  assumes "p \<noteq> []" "\<not> list_ex is_digit p" "normalizePhones cfg" "ec_phone ec = Some p"
  shows "normalize_emergency cfg ec = ec\<lparr>ec_phone := None\<rparr>"
  using assms by (simp add: normalize_emergency_def no_digits_normalize)

lemma location_erases:
  assumes "p \<noteq> []" "\<not> list_ex is_digit p" "normalizePhones cfg" "loc_phone loc = Some p"
  shows "normalize_location cfg loc = loc\<lparr>loc_phone := None\<rparr>"
  using assms by (simp add: normalize_location_def no_digits_normalize)

lemma digitless_run:
  assumes "p \<noteq> []" "\<not> list_ex is_digit p"
  shows "normalize DEFAULT_CONFIG (digitless_extraction info k p) =
           Inr \<lparr> data = erased_extraction info k,
                 stats = \<lparr> phonesNormalized = 1, namesNormalized = 0, rolesNormalized = 0,
                           departmentsInferred = 0, duplicatesRemoved = 0, totalContacts = 1 \<rparr>,
                 issues = [] \<rparr>"
  using assms
  by (simp add: digitless_extraction_def erased_extraction_def no_digits_normalize
        normalize_emergency_def normalize_location_def
        service_defs dedup_defs role_defs name_defs string_defs char_defs)

text \<open>
  C10. \<open>PhoneNormalizer.normalize\<close> returns \<open>null\<close> for every string without a digit. So
  when phones are normalized and the phone is such a string that is not empty, the phone
  block of a contact sets the phone to \<open>null\<close>, counts it as normalized and adds no issue;
  the phone of an emergency contact and of a location becomes \<open>null\<close>; and under the
  default configuration the whole call on an extraction with such a phone in all three
  places returns the three phones as \<open>null\<close> and no issue.
\<close>

theorem phone_without_digits_erased:
  "(\<not> list_ex is_digit p \<longrightarrow> phone_normalize (Some p) = None) \<and>
   (p \<noteq> [] \<and> \<not> list_ex is_digit p \<and> normalizePhones cfg \<longrightarrow>
      (phone c = Some p \<longrightarrow>
         phone_step cfg c (st, iss) =
           (c\<lparr>phone := None\<rparr>, (st\<lparr>phonesNormalized := phonesNormalized st + 1\<rparr>, iss))) \<and>
      (ec_phone ec = Some p \<longrightarrow> normalize_emergency cfg ec = ec\<lparr>ec_phone := None\<rparr>) \<and>
      (loc_phone loc = Some p \<longrightarrow> normalize_location cfg loc = loc\<lparr>loc_phone := None\<rparr>)) \<and>
   (p \<noteq> [] \<and> \<not> list_ex is_digit p \<longrightarrow>
      normalize DEFAULT_CONFIG (digitless_extraction info k p) =
        Inr \<lparr> data = erased_extraction info k,
              stats = \<lparr> phonesNormalized = 1, namesNormalized = 0, rolesNormalized = 0,
                        departmentsInferred = 0, duplicatesRemoved = 0, totalContacts = 1 \<rparr>,
              issues = [] \<rparr>)"
proof (intro conjI impI)
  assume "\<not> list_ex is_digit p"
  then show "phone_normalize (Some p) = None" by (rule no_digits_normalize)
next
  assume h: "p \<noteq> [] \<and> \<not> list_ex is_digit p \<and> normalizePhones cfg" and f: "phone c = Some p"
  from h have "p \<noteq> []" and "\<not> list_ex is_digit p" and "normalizePhones cfg" by simp_all
  then show "phone_step cfg c (st, iss) =
      (c\<lparr>phone := None\<rparr>, (st\<lparr>phonesNormalized := phonesNormalized st + 1\<rparr>, iss))"
    using f by (rule phone_step_erases)
next
  assume h: "p \<noteq> [] \<and> \<not> list_ex is_digit p \<and> normalizePhones cfg" and f: "ec_phone ec = Some p"
  from h have "p \<noteq> []" and "\<not> list_ex is_digit p" and "normalizePhones cfg" by simp_all
  then show "normalize_emergency cfg ec = ec\<lparr>ec_phone := None\<rparr>"
    using f by (rule emergency_erases)
next
  assume h: "p \<noteq> [] \<and> \<not> list_ex is_digit p \<and> normalizePhones cfg" and f: "loc_phone loc = Some p"
  from h have "p \<noteq> []" and "\<not> list_ex is_digit p" and "normalizePhones cfg" by simp_all
  then show "normalize_location cfg loc = loc\<lparr>loc_phone := None\<rparr>"
    using f by (rule location_erases)
next
  assume h: "p \<noteq> [] \<and> \<not> list_ex is_digit p"
  from h have "p \<noteq> []" and "\<not> list_ex is_digit p" by simp_all
  then show "normalize DEFAULT_CONFIG (digitless_extraction info k p) =
      Inr \<lparr> data = erased_extraction info k,
            stats = \<lparr> phonesNormalized = 1, namesNormalized = 0, rolesNormalized = 0,
                      departmentsInferred = 0, duplicatesRemoved = 0, totalContacts = 1 \<rparr>,
            issues = [] \<rparr>"
    by (rule digitless_run)
qed

theorem phone_without_digits_erased_witness:
  "''ext. TBD'' \<noteq> [] \<and> \<not> list_ex is_digit ''ext. TBD'' \<and> normalizePhones DEFAULT_CONFIG \<and>
   phone_normalize (Some ''ext. TBD'') = None \<and>
   normalize_emergency DEFAULT_CONFIG
     \<lparr> ec_type = ''Medic'', ec_name = None, ec_phone = Some ''ext. TBD'' \<rparr> =
     \<lparr> ec_type = ''Medic'', ec_name = None, ec_phone = None \<rparr> \<and>
   normalize DEFAULT_CONFIG
     (digitless_extraction \<lparr> title = None, production_company = None, shoot_date = None \<rparr>
        (Some (9 / 10)) ''ext. TBD'') =
     Inr \<lparr> data = erased_extraction
                    \<lparr> title = None, production_company = None, shoot_date = None \<rparr>
                    (Some (9 / 10)),
           stats = \<lparr> phonesNormalized = 1, namesNormalized = 0, rolesNormalized = 0,
                     departmentsInferred = 0, duplicatesRemoved = 0, totalContacts = 1 \<rparr>,
           issues = [] \<rparr>"
proof -
  have h: "''ext. TBD'' \<noteq> [] \<and> \<not> list_ex is_digit ''ext. TBD'' \<and> normalizePhones DEFAULT_CONFIG"
    by (simp add: char_defs DEFAULT_CONFIG_def)
  have e: "ec_phone \<lparr> ec_type = ''Medic'', ec_name = None, ec_phone = Some ''ext. TBD'' \<rparr>
             = Some ''ext. TBD''"
    by simp
  show ?thesis
    using h e
      phone_without_digits_erased [of "''ext. TBD''" DEFAULT_CONFIG _ _ _
        "\<lparr> ec_type = ''Medic'', ec_name = None, ec_phone = Some ''ext. TBD'' \<rparr>" _
        "\<lparr> title = None, production_company = None, shoot_date = None \<rparr>" "Some (9 / 10)"]
    by simp
qed

section \<open>An extraction without contacts\<close>

lemma normalize_no_contacts:
  assumes "contacts e = []"
  shows "normalize cfg e =
           Inr \<lparr> data = e\<lparr> emergency_contacts := map (normalize_emergency cfg) (emergency_contacts e),
                            locations := map (normalize_location cfg) (locations e) \<rparr>,
                 stats = \<lparr> phonesNormalized = 0, namesNormalized = 0, rolesNormalized = 0,
                           departmentsInferred = 0, duplicatesRemoved = 0, totalContacts = 0 \<rparr>,
                 issues = [] \<rparr>"
  using assms by (cases e) (simp add: normalize_def deduplicate_def Let_def)

text \<open>
  C6, as the code has it. For every configuration and every extraction without contacts,
  \<open>normalize\<close> returns: the contact count is zero, every counter is zero, and the issues are
  empty, so there is no warning among them. The warning about the empty contacts is what
  \<open>validateExtraction\<close> returns for such an extraction, with the severity warning.
\<close>

theorem normalize_empty_contacts:
  "contacts e = [] \<Longrightarrow>
     normalize cfg e =
       Inr \<lparr> data = e\<lparr> emergency_contacts := map (normalize_emergency cfg) (emergency_contacts e),
                        locations := map (normalize_location cfg) (locations e) \<rparr>,
             stats = \<lparr> phonesNormalized = 0, namesNormalized = 0, rolesNormalized = 0,
                       departmentsInferred = 0, duplicatesRemoved = 0, totalContacts = 0 \<rparr>,
             issues = [] \<rparr> \<and>
     \<not> has_warning (normalize cfg e) \<and>
     validateExtraction e =
       [\<lparr> v_field = ''contacts'',
          v_message = ''No contacts were extracted. This might be a parsing error.'',
          v_severity = Warning \<rparr>]"
  by (simp add: normalize_no_contacts has_warning_def validateExtraction_def)

theorem normalize_empty_contacts_witness:
  "contacts empty_extraction = [] \<and>
   normalize DEFAULT_CONFIG empty_extraction =
     Inr \<lparr> data = empty_extraction,
           stats = \<lparr> phonesNormalized = 0, namesNormalized = 0, rolesNormalized = 0,
                     departmentsInferred = 0, duplicatesRemoved = 0, totalContacts = 0 \<rparr>,
           issues = [] \<rparr> \<and>
   validateExtraction empty_extraction =
     [\<lparr> v_field = ''contacts'',
        v_message = ''No contacts were extracted. This might be a parsing error.'',
        v_severity = Warning \<rparr>]"
proof -
  have h: "contacts empty_extraction = []" by (simp add: empty_extraction_def)
  show ?thesis
    using h normalize_empty_contacts [OF h, of DEFAULT_CONFIG]
    by (simp add: empty_extraction_def)
qed

text \<open>
  C6, as the specification states it, fails: for the empty extraction the issues that
  \<open>normalize\<close> returns contain no warning.
\<close>

theorem normalize_empty_no_warning_counterexample:
  "\<not> has_warning (normalize DEFAULT_CONFIG empty_extraction)"
  by (simp add: has_warning_def empty_extraction_def normalize_def deduplicate_def Let_def)

section \<open>A second run of the normalization service\<close>

text \<open>
  C5 fails on the code. The first run on the end-to-end scenario returns the role Director
  of Photography. The second run, on the data of the first, finds no exact mapping for that
  role, finds the abbreviation \<open>photo\<close> inside it, and returns the role Photographer: the
  data differ and \<open>rolesNormalized\<close> is 1.
\<close>

theorem second_run_renames_role:
  "normalize DEFAULT_CONFIG
     \<lparr> production_info = \<lparr> title = None, production_company = None, shoot_date = None \<rparr>,
       contacts = scenario_contacts k1 k2, emergency_contacts = [], locations = [] \<rparr> =
     Inr first_run \<and>
   normalize DEFAULT_CONFIG (data first_run) = Inr second_run \<and>
   data second_run \<noteq> data first_run \<and>
   rolesNormalized (stats second_run) = 1"
  by (simp add: first_run_def second_run_def scenario_contacts_def normalize_emergency_def
        normalize_location_def service_defs dedup_defs role_defs phone_defs name_defs
        string_defs char_defs)

section \<open>The document router\<close>

lemma process_loop_find:
  "process_loop env ps content filename hint =
     (case find (\<lambda>p. canProcess p content hint) ps of
        Some p \<Rightarrow> processor_process env p content filename
      | None \<Rightarrow> Failure unsupported_format)"
  by (induction ps) auto

lemma detectType_pdf: "pdf_marked c h \<Longrightarrow> detectType c h = Pdf"
  by (auto simp: detectType_def pdf_marked_def)

lemma detectType_image: "\<not> pdf_marked c h \<Longrightarrow> image_marked c h \<Longrightarrow> detectType c h = Image"
  by (auto simp: detectType_def pdf_marked_def image_marked_def)

lemma detectType_text:
  "\<not> pdf_marked c h \<Longrightarrow> \<not> image_marked c h \<Longrightarrow> text_marked c h \<Longrightarrow> detectType c h = Text"
  by (auto simp: detectType_def pdf_marked_def image_marked_def text_marked_def)

lemma detectType_unknown:
  "\<not> pdf_marked c h \<Longrightarrow> \<not> image_marked c h \<Longrightarrow> \<not> text_marked c h \<Longrightarrow> detectType c h = Unknown"
  by (auto simp: detectType_def pdf_marked_def image_marked_def text_marked_def)

lemmas can_defs = pdf_canProcess_def word_canProcess_def excel_canProcess_def
  image_canProcess_def text_canProcess_def SUPPORTED_IMAGE_TYPES_def

lemmas mark_defs = pdf_marked_def image_marked_def text_marked_def hint_startsWith_def

text \<open>
  C7. \<open>detectType\<close> returns \<open>pdf\<close> for a PDF marker or hint; otherwise \<open>image\<close> for an image
  marker or hint; otherwise \<open>text\<close> for a text marker, a text hint or a content that does
  not start with \<open>data:\<close>; otherwise \<open>unknown\<close>. The registered processors are PDF, Word,
  Excel, Image, Text in this order, and \<open>process\<close> returns what the first of them that can
  process the content returns, and the failure for an unsupported format when none can.
\<close>

theorem detectType_priority_and_dispatch:
  "(pdf_marked content hint \<longrightarrow> detectType content hint = Pdf) \<and>
   (\<not> pdf_marked content hint \<and> image_marked content hint \<longrightarrow> detectType content hint = Image) \<and>
   (\<not> pdf_marked content hint \<and> \<not> image_marked content hint \<and> text_marked content hint \<longrightarrow>
      detectType content hint = Text) \<and>
   (\<not> pdf_marked content hint \<and> \<not> image_marked content hint \<and> \<not> text_marked content hint \<longrightarrow>
      detectType content hint = Unknown) \<and>
   processors = [PdfProcessor, WordProcessor, ExcelProcessor, ImageProcessor, TextProcessor] \<and>
   (\<forall>p. first_match content hint = Some p \<longrightarrow>
      process env content filename hint = processor_process env p content filename) \<and>
   (first_match content hint = None \<longrightarrow>
      process env content filename hint = Failure unsupported_format)"
  using detectType_pdf detectType_image detectType_text detectType_unknown
  by (auto simp: process_def process_loop_find processors_def first_match_def)

theorem detectType_priority_and_dispatch_witness:
  "pdf_marked ''data:application/pdf;base64,JVBERi0='' None \<and>
   detectType ''data:application/pdf;base64,JVBERi0='' None = Pdf \<and>
   \<not> pdf_marked ''scan'' (Some ''image/png'') \<and> image_marked ''scan'' (Some ''image/png'') \<and>
   detectType ''scan'' (Some ''image/png'') = Image \<and>
   \<not> pdf_marked ''CALL SHEET day 1'' None \<and> \<not> image_marked ''CALL SHEET day 1'' None \<and>
   text_marked ''CALL SHEET day 1'' None \<and>
   detectType ''CALL SHEET day 1'' None = Text \<and>
   \<not> pdf_marked ''data:application/zip;base64,UEsDBA=='' None \<and>
   \<not> image_marked ''data:application/zip;base64,UEsDBA=='' None \<and>
   \<not> text_marked ''data:application/zip;base64,UEsDBA=='' None \<and>
   detectType ''data:application/zip;base64,UEsDBA=='' None = Unknown \<and>
   first_match ''scan'' (Some ''image/png'') = Some ImageProcessor \<and>
   process sample_env ''scan'' ''scan.png'' (Some ''image/png'') =
     Failure ''Invalid image data URL format'' \<and>
   first_match ''data:application/zip;base64,UEsDBA=='' None = None \<and>
   process sample_env ''data:application/zip;base64,UEsDBA=='' ''a.zip'' None =
     Failure unsupported_format"
proof -
  have a: "pdf_marked ''data:application/pdf;base64,JVBERi0='' None"
    by (simp add: mark_defs)
  have b: "\<not> pdf_marked ''scan'' (Some ''image/png'') \<and> image_marked ''scan'' (Some ''image/png'')"
    by (simp add: mark_defs)
  have c: "\<not> pdf_marked ''CALL SHEET day 1'' None \<and> \<not> image_marked ''CALL SHEET day 1'' None \<and>
           text_marked ''CALL SHEET day 1'' None"
    by (simp add: mark_defs)
  have d: "\<not> pdf_marked ''data:application/zip;base64,UEsDBA=='' None \<and>
           \<not> image_marked ''data:application/zip;base64,UEsDBA=='' None \<and>
           \<not> text_marked ''data:application/zip;base64,UEsDBA=='' None"
    by (simp add: mark_defs)
  have e: "first_match ''scan'' (Some ''image/png'') = Some ImageProcessor"
    by (simp add: first_match_def can_defs)
  have f: "first_match ''data:application/zip;base64,UEsDBA=='' None = None"
    by (simp add: first_match_def can_defs)
  have g: "image_process sample_env ''scan'' ''scan.png'' = Failure ''Invalid image data URL format''"
    by (simp add: image_process_def match_image_def match_run_def strip_prefix_def)
  show ?thesis
    using a b c d e f g
      detectType_priority_and_dispatch [of "''data:application/pdf;base64,JVBERi0=''" None]
      detectType_priority_and_dispatch [of "''scan''" "Some ''image/png''" sample_env "''scan.png''"]
      detectType_priority_and_dispatch [of "''CALL SHEET day 1''" None]
      detectType_priority_and_dispatch [of "''data:application/zip;base64,UEsDBA==''" None
        sample_env "''a.zip''"]
    by simp
qed

section \<open>The PDF processor\<close>

lemmas match_defs = match_pdf_def match_base64_def match_text_base64_def match_text_plain_def
  match_image_def match_run_def strip_prefix_def dot_plus_end_def is_line_terminator_def
  is_lower_az_def

lemmas order_defs = less_eq_char_def less_char_def

lemma read_images_length: "read_images env fs = Some urls \<Longrightarrow> length urls = length fs"
  by (induction fs arbitrary: urls) (auto split: option.splits)

lemma convertToImages_min: "5 \<le> n \<Longrightarrow> convertToImages env n = convertToImages env 5"
  by (simp add: convertToImages_def MAX_PAGES_FOR_VISION_def)

lemma convertToImages_length:
  assumes "renderer_within env (min n 5)"
  shows "length (convertToImages env n) \<le> 5"
proof (cases "readdir env (min n 5)")
  case None
  then show ?thesis by (simp add: convertToImages_def MAX_PAGES_FOR_VISION_def Let_def)
next
  case (Some files)
  with assms have b: "length (filter is_page_png files) \<le> 5"
    by (simp add: renderer_within_def)
  show ?thesis
  proof (cases "read_images env (sort (filter is_page_png files))")
    case None
    with Some show ?thesis by (simp add: convertToImages_def MAX_PAGES_FOR_VISION_def Let_def)
  next
    case (Some urls)
    then have "length urls = length (filter is_page_png files)"
      using read_images_length by fastforce
    with b Some \<open>readdir env (min n 5) = Some files\<close> show ?thesis
      by (simp add: convertToImages_def MAX_PAGES_FOR_VISION_def Let_def)
  qed
qed

lemma pdf_process_text:
  assumes "mkdir env = None" "match_pdf dataUrl = Some b64" "writeFile env = None"
    and "100 \<le> length (trim (extractText env))"
  shows "pdf_process env dataUrl filename =
           Success (pdf_document env b64 filename (Some (extractText env)) None)"
  using assms
  by (simp add: pdf_process_def pdf_document_def MIN_TEXT_LENGTH_THRESHOLD_def Let_def)

lemma pdf_process_scanned:
  assumes "mkdir env = None" "match_pdf dataUrl = Some b64" "writeFile env = None"
    and "length (trim (extractText env)) < 100"
  shows "pdf_process env dataUrl filename =
           (if convertToImages env (getPageCount env) = []
            then Failure ''Failed to convert PDF to images. The file may be corrupted.''
            else Success (pdf_document env b64 filename None
                            (Some (convertToImages env (getPageCount env)))))"
  using assms
  by (simp add: pdf_process_def pdf_document_def MIN_TEXT_LENGTH_THRESHOLD_def Let_def)

text \<open>
  C8, as the code has it. For a PDF data URL that matches, with the working directory made
  and the file written: if the extracted text without its leading and trailing white space
  has at least 100 characters, \<open>process\<close> succeeds with the extracted text, the strategy
  \<open>text-extraction\<close> and no vision; if it has fewer, \<open>process\<close> asks the renderer for the
  pages up to the page count and at most 5, fails with the message about a corrupted file
  when that gives no image, and otherwise succeeds with the images, the strategy \<open>vision\<close>
  and vision required. There are at most 5 images when the page count is at least 1 and the
  renderer leaves no more page images than the pages it was asked for.
\<close>

theorem pdf_process_strategy:
  assumes "mkdir env = None" and "match_pdf dataUrl = Some b64" and "writeFile env = None"
  shows
    "(100 \<le> length (trim (extractText env)) \<longrightarrow>
        pdf_process env dataUrl filename =
          Success (pdf_document env b64 filename (Some (extractText env)) None)) \<and>
     (length (trim (extractText env)) < 100 \<longrightarrow>
        pdf_process env dataUrl filename =
          (if convertToImages env (getPageCount env) = []
           then Failure ''Failed to convert PDF to images. The file may be corrupted.''
           else Success (pdf_document env b64 filename None
                           (Some (convertToImages env (getPageCount env)))))) \<and>
     (5 \<le> getPageCount env \<longrightarrow>
        convertToImages env (getPageCount env) = convertToImages env 5) \<and>
     (1 \<le> getPageCount env \<and> renderer_within env (min (getPageCount env) 5) \<longrightarrow>
        length (convertToImages env (getPageCount env)) \<le> 5)"
  using assms pdf_process_text pdf_process_scanned convertToImages_min convertToImages_length
  by blast

lemma sample_images:
  "convertToImages sample_env 2 =
     [''data:image/png;base64,iVBORw0KGgoA'', ''data:image/png;base64,iVBORw0KGgoB'']"
  by (simp add: convertToImages_def sample_env_def MAX_PAGES_FOR_VISION_def is_page_png_def
        endsWith_def order_defs)

lemma trim_replicate_space: "is_space c \<Longrightarrow> trim (replicate n c) = []"
  by (simp add: trim_def)

theorem pdf_process_strategy_witness:
  "mkdir sample_env = None \<and>
   match_pdf ''data:application/pdf;base64,JVBERi0='' = Some ''JVBERi0='' \<and>
   writeFile sample_env = None \<and>
   length (trim (extractText sample_env)) < 100 \<and>
   1 \<le> getPageCount sample_env \<and> renderer_within sample_env (min (getPageCount sample_env) 5) \<and>
   pdf_process sample_env ''data:application/pdf;base64,JVBERi0='' ''scan.pdf'' =
     Success (pdf_document sample_env ''JVBERi0='' ''scan.pdf'' None
       (Some [''data:image/png;base64,iVBORw0KGgoA'', ''data:image/png;base64,iVBORw0KGgoB''])) \<and>
   length (convertToImages sample_env (getPageCount sample_env)) \<le> 5"
proof -
  have a: "mkdir sample_env = None" "writeFile sample_env = None"
    by (simp_all add: sample_env_def)
  have b: "match_pdf ''data:application/pdf;base64,JVBERi0='' = Some ''JVBERi0=''"
    by (simp add: match_defs code_unit_def)
  have c: "length (trim (extractText sample_env)) < 100"
    by (simp add: sample_env_def extractText_def trim_def is_space_def code_unit_def)
  have d: "getPageCount sample_env = 2"
    by (simp add: sample_env_def getPageCount_def)
  have e: "renderer_within sample_env (min (getPageCount sample_env) 5)"
    unfolding d by (simp add: renderer_within_def sample_env_def is_page_png_def endsWith_def)
  show ?thesis
    using a b c d e sample_images
      pdf_process_strategy [OF a(1) b a(2), of "''scan.pdf''"]
    by simp
qed

text \<open>
  C8, as the specification states it, fails: the threshold is on the text without its
  leading and trailing white space. The extracted text of the scanned PDF of 120 pages has
  120 characters, all form feeds, and \<open>process\<close> returns the images with the strategy
  \<open>vision\<close>.
\<close>

theorem pdf_blank_text_counterexample:
  "100 \<le> length (extractText blank_pages_env) \<and>
   pdf_process blank_pages_env ''data:application/pdf;base64,JVBERi0='' ''scan.pdf'' =
     Success
       \<lparr> doc_type = Pdf, textContent = None,
         images = Some [''data:image/png;base64,iVBORw0KGgoA'',
                        ''data:image/png;base64,iVBORw0KGgoB''],
         metadata = \<lparr> originalFilename = ''scan.pdf'', mimeType = ''application/pdf'',
                      size_bytes = 5, pageCount = Some 120 \<rparr>,
         strategy = Vision, requiresVision = True \<rparr>"
proof -
  have a: "extractText blank_pages_env = replicate 120 (CHR 0x0C)"
    by (simp add: blank_pages_env_def extractText_def)
  have b: "trim (replicate 120 (CHR 0x0C)) = []"
    by (rule trim_replicate_space) (simp add: is_space_def code_unit_def)
  have c: "convertToImages blank_pages_env 120 = convertToImages sample_env 2"
    by (simp add: convertToImages_def blank_pages_env_def sample_env_def MAX_PAGES_FOR_VISION_def)
  have d: "match_pdf ''data:application/pdf;base64,JVBERi0='' = Some ''JVBERi0=''"
    by (simp add: match_defs code_unit_def)
  have e: "getPageCount blank_pages_env = 120" "mkdir blank_pages_env = None"
    "writeFile blank_pages_env = None" "base64_length blank_pages_env ''JVBERi0='' = 5"
    by (simp_all add: blank_pages_env_def sample_env_def getPageCount_def)
  show ?thesis
    by (simp add: a pdf_process_def Let_def b c d e sample_images MIN_TEXT_LENGTH_THRESHOLD_def)
qed

text \<open>
  When the renderer command fails, as it does when its binary is missing,
  \<open>convertToImages\<close> catches the error and returns no image: the result is the message
  about a corrupted file, and the \<open>catch\<close> block of \<open>process\<close>, which has the message about
  the missing tools, is not reached.
\<close>

lemma missing_renderer_reported_as_corrupt:
  assumes "mkdir env = None" and "match_pdf dataUrl = Some b64" and "writeFile env = None"
    and "length (trim (extractText env)) < 100"
    and "\<not> pdftoppm env (min (getPageCount env) 5)"
  shows "pdf_process env dataUrl filename =
           Failure ''Failed to convert PDF to images. The file may be corrupted.''"
proof -
  from assms(5) have "convertToImages env (getPageCount env) = []"
    by (simp add: convertToImages_def MAX_PAGES_FOR_VISION_def)
  with assms show ?thesis by (simp add: pdf_process_scanned)
qed

section \<open>The shape of a successful result\<close>

lemma length_trim_le: "length (trim s) \<le> length s"
proof -
  have "length (trim s) \<le> length (dropWhile is_space s)"
    using length_dropWhile_le [of is_space "rev (dropWhile is_space s)"]
    by (simp add: trim_def)
  also have "\<dots> \<le> length s" by (rule length_dropWhile_le)
  finally show ?thesis .
qed

lemma long_trim_nonempty: "n \<le> length (trim s) \<Longrightarrow> 0 < n \<Longrightarrow> s \<noteq> []"
  using length_trim_le [of s] by auto

lemma smartTruncate_nonempty: "s \<noteq> [] \<Longrightarrow> smartTruncate s n \<noteq> []"
  by (simp add: smartTruncate_def Let_def truncation_notice_def)

lemma pdf_shape:
  assumes "pdf_process env dataUrl filename = Success doc"
  shows "populated_text doc \<noteq> populated_images doc \<and> requiresVision doc = populated_images doc"
proof -
  have text_case: "100 \<le> length (trim t) \<Longrightarrow> t \<noteq> []" for t
    using long_trim_nonempty [of 100 t] by simp
  from assms show ?thesis
    by (auto simp: pdf_process_def pdf_catch_def Let_def populated_text_def populated_images_def
          MIN_TEXT_LENGTH_THRESHOLD_def
        split: option.splits if_splits dest: text_case)
qed

lemma word_shape:
  assumes "word_process env dataUrl filename = Success doc"
  shows "populated_text doc \<noteq> populated_images doc \<and> requiresVision doc = populated_images doc"
proof -
  have text_case: "\<not> length (trim t) < 50 \<Longrightarrow> t \<noteq> []" for t
    using long_trim_nonempty [of 50 t] by simp
  from assms show ?thesis
    by (auto simp: word_process_def Let_def populated_text_def populated_images_def
          OFFICE_MIN_TEXT_LENGTH_def office_truncation_marker_def
        split: option.splits sum.splits if_splits dest: text_case)
qed

lemma excel_shape:
  assumes "excel_process env dataUrl filename = Success doc"
  shows "populated_text doc \<noteq> populated_images doc \<and> requiresVision doc = populated_images doc"
proof -
  have text_case: "\<not> length (trim t) < 50 \<Longrightarrow> t \<noteq> []" for t
    using long_trim_nonempty [of 50 t] by simp
  from assms show ?thesis
    by (auto simp: excel_process_def Let_def populated_text_def populated_images_def
          OFFICE_MIN_TEXT_LENGTH_def office_truncation_marker_def
        split: option.splits sum.splits if_splits dest: text_case)
qed

lemma image_shape:
  assumes "image_process env dataUrl filename = Success doc"
  shows "populated_text doc \<noteq> populated_images doc \<and> requiresVision doc = populated_images doc"
  using assms
  by (auto simp: image_process_def Let_def populated_text_def populated_images_def
      split: option.splits if_splits)

lemma text_shape:
  assumes "text_process env dataUrl filename = Success doc"
  shows "populated_text doc \<noteq> populated_images doc \<and> requiresVision doc = populated_images doc"
proof -
  have text_case: "\<not> length (trim t) < 10 \<Longrightarrow> t \<noteq> []" for t
    using long_trim_nonempty [of 10 t] by simp
  from assms show ?thesis
    by (auto simp: text_process_def Let_def populated_text_def populated_images_def
          TEXT_MIN_TEXT_LENGTH_def smartTruncate_nonempty
        split: option.splits sum.splits if_splits dest: text_case)
qed

text \<open>
  C9. In the document of every successful result of any of the five processors, exactly
  one of \<open>textContent\<close> and \<open>images\<close> is present and not empty, and \<open>requiresVision\<close> is true
  if and only if \<open>images\<close> is the populated one.
\<close>

theorem successful_document_shape:
  "processor_process env p dataUrl filename = Success doc \<Longrightarrow>
     populated_text doc \<noteq> populated_images doc \<and> requiresVision doc = populated_images doc"
  by (cases p) (simp_all add: pdf_shape word_shape excel_shape image_shape text_shape)

theorem successful_document_shape_witness:
  "processor_process sample_env ImageProcessor ''data:image/png;base64,iVBORw0KGgoA'' ''a.png'' =
     Success
       \<lparr> doc_type = Image, textContent = None,
         images = Some [''data:image/png;base64,iVBORw0KGgoA''],
         metadata = \<lparr> originalFilename = ''a.png'', mimeType = ''image/png'', size_bytes = 9,
                      pageCount = None \<rparr>,
         strategy = Vision, requiresVision = True \<rparr> \<and>
   populated_images
       \<lparr> doc_type = Image, textContent = None,
         images = Some [''data:image/png;base64,iVBORw0KGgoA''],
         metadata = \<lparr> originalFilename = ''a.png'', mimeType = ''image/png'', size_bytes = 9,
                      pageCount = None \<rparr>,
         strategy = Vision, requiresVision = True \<rparr> \<and>
   \<not> populated_text
       \<lparr> doc_type = Image, textContent = None,
         images = Some [''data:image/png;base64,iVBORw0KGgoA''],
         metadata = \<lparr> originalFilename = ''a.png'', mimeType = ''image/png'', size_bytes = 9,
                      pageCount = None \<rparr>,
         strategy = Vision, requiresVision = True \<rparr>"
proof -
  have run: "processor_process sample_env ImageProcessor ''data:image/png;base64,iVBORw0KGgoA''
               ''a.png'' =
     Success
       \<lparr> doc_type = Image, textContent = None,
         images = Some [''data:image/png;base64,iVBORw0KGgoA''],
         metadata = \<lparr> originalFilename = ''a.png'', mimeType = ''image/png'', size_bytes = 9,
                      pageCount = None \<rparr>,
         strategy = Vision, requiresVision = True \<rparr>"
    by (simp add: image_process_def match_defs code_unit_def SUPPORTED_IMAGE_TYPES_def
          MAX_IMAGE_SIZE_def)
  show ?thesis
    using run successful_document_shape [OF run]
    by (simp add: populated_text_def)
qed

section \<open>The deduplicator\<close>

lemma first_seen_snoc:
  "first_seen (ks @ [k]) = (if k \<in> set ks then first_seen ks else first_seen ks @ [k])"
  by (simp add: first_seen_def)

lemma set_first_seen: "set (first_seen ks) = set ks"
  by (simp add: first_seen_def)

lemma distinct_first_seen: "distinct (first_seen ks)"
  by (simp add: first_seen_def)

lemma length_first_seen: "length (first_seen ks) = card (set ks)"
  using distinct_card [OF distinct_first_seen, of ks] by (simp add: set_first_seen)

lemma dedup_loop_snoc: "dedup_loop (cs @ [c]) st = dedup_step c (dedup_loop cs st)"
  by (induction cs arbitrary: st) simp_all

lemma map_fst_map_set:
  "map fst (map_set m k v) = (if k \<in> set (map fst m) then map fst m else map fst m @ [k])"
  by (induction m) (force split: if_splits)+

lemma map_of_map_set: "map_of (map_set m k v) j = (if j = k then Some v else map_of m j)"
  by (induction m) auto

lemma merged_snoc:
  "merged (g @ [c]) = Some (case merged g of None \<Rightarrow> c | Some x \<Rightarrow> mergeContacts x c)"
  by (cases g) (simp_all add: merged_def)

lemma group_of_snoc:
  "group_of (cs @ [c]) k = (if generateKey c = k then group_of cs k @ [c] else group_of cs k)"
  by (simp add: group_of_def)

lemma merged_None: "merged (group_of cs k) = None \<longleftrightarrow> k \<notin> set (map generateKey cs)"
proof -
  have "merged g = None \<longleftrightarrow> g = []" for g
    by (cases g) (simp_all add: merged_def)
  then show ?thesis
    by (auto simp: group_of_def filter_empty_conv)
qed

lemma map_of_lookup_all:
  "distinct (map fst m) \<Longrightarrow> map (map_of m) (map fst m) = map (\<lambda>e. Some (snd e)) m"
proof (induction m)
  case Nil
  then show ?case by simp
next
  case (Cons e m)
  obtain k v where e: "e = (k, v)" by (cases e)
  from Cons.prems e have fresh: "k \<notin> set (map fst m)" and d: "distinct (map fst m)"
    by simp_all
  have "map (map_of (e # m)) (map fst m) = map (map_of m) (map fst m)"
  proof (rule map_cong [OF refl])
    fix j assume "j \<in> set (map fst m)"
    with fresh have "j \<noteq> k" by blast
    then show "map_of (e # m) j = map_of m j" by (simp add: e)
  qed
  with Cons.IH [OF d] show ?case by (simp add: e)
qed

lemma dedup_loop_invariant:
  "dedup_loop cs ([], 0) = (m, r) \<Longrightarrow>
     map fst m = first_seen (map generateKey cs) \<and>
     (\<forall>k. map_of m k = merged (group_of cs k)) \<and>
     r + length m = length cs"
proof (induction cs arbitrary: m r rule: rev_induct)
  case Nil
  then show ?case by (simp add: first_seen_def merged_def group_of_def)
next
  case (snoc c cs)
  obtain m0 r0 where loop: "dedup_loop cs ([], 0) = (m0, r0)"
    by (cases "dedup_loop cs ([], 0)")
  from snoc.IH [OF loop]
  have keys: "map fst m0 = first_seen (map generateKey cs)"
    and look: "\<And>k. map_of m0 k = merged (group_of cs k)"
    and count: "r0 + length m0 = length cs"
    by auto
  let ?k = "generateKey c"
  show ?case
  proof (cases "merged (group_of cs ?k)")
    case None
    then have fresh: "?k \<notin> set (map generateKey cs)" by (simp add: merged_None)
    from snoc.prems loop None look
    have m: "m = map_set m0 ?k c" and r: "r = r0"
      by (auto simp: dedup_loop_snoc dedup_step_def Let_def)
    have "map fst m = first_seen (map generateKey (cs @ [c]))"
      using fresh keys by (simp add: m map_fst_map_set first_seen_snoc set_first_seen)
    moreover have "\<forall>k. map_of m k = merged (group_of (cs @ [c]) k)"
      using None look by (auto simp: m map_of_map_set group_of_snoc merged_snoc)
    moreover have "r + length m = length (cs @ [c])"
    proof -
      have "length m = length (map fst m)" by simp
      also have "\<dots> = length (map fst m0) + 1"
        using fresh keys by (simp add: m map_fst_map_set set_first_seen)
      finally show ?thesis using count r by simp
    qed
    ultimately show ?thesis by blast
  next
    case (Some existing)
    then have seen: "?k \<in> set (map generateKey cs)"
      using merged_None [of cs ?k] by auto
    from snoc.prems loop Some look
    have m: "m = map_set m0 ?k (mergeContacts existing c)" and r: "r = r0 + 1"
      by (auto simp: dedup_loop_snoc dedup_step_def Let_def)
    have "map fst m = first_seen (map generateKey (cs @ [c]))"
      using seen keys by (simp add: m map_fst_map_set first_seen_snoc set_first_seen)
    moreover have "\<forall>k. map_of m k = merged (group_of (cs @ [c]) k)"
      using Some look by (auto simp: m map_of_map_set group_of_snoc merged_snoc)
    moreover have "r + length m = length (cs @ [c])"
    proof -
      have "length m = length (map fst m)" by simp
      also have "\<dots> = length (map fst m0)"
        using seen keys by (simp add: m map_fst_map_set set_first_seen)
      finally show ?thesis using count r by simp
    qed
    ultimately show ?thesis by blast
  qed
qed

lemma deduplicate_groups:
  "map Some (fst (deduplicate cs)) =
     map (\<lambda>k. merged (group_of cs k)) (first_seen (map generateKey cs))"
  and deduplicate_count:
  "snd (deduplicate cs) + card (set (map generateKey cs)) = length cs"
proof -
  obtain m r where loop: "dedup_loop cs ([], 0) = (m, r)"
    by (cases "dedup_loop cs ([], 0)")
  from dedup_loop_invariant [OF loop]
  have keys: "map fst m = first_seen (map generateKey cs)"
    and look: "\<And>k. map_of m k = merged (group_of cs k)"
    and count: "r + length m = length cs"
    by auto
  have d: "distinct (map fst m)" by (simp add: keys distinct_first_seen)
  have res: "deduplicate cs = (map snd m, r)"
  proof (cases cs)
    case Nil
    with loop show ?thesis by (simp add: deduplicate_def)
  next
    case (Cons c cs')
    with loop show ?thesis by (simp add: deduplicate_def)
  qed
  have "map (\<lambda>k. merged (group_of cs k)) (first_seen (map generateKey cs)) =
          map (map_of m) (map fst m)"
    using look by (simp add: keys)
  also have "\<dots> = map (\<lambda>e. Some (snd e)) m" by (rule map_of_lookup_all [OF d])
  finally show "map Some (fst (deduplicate cs)) =
     map (\<lambda>k. merged (group_of cs k)) (first_seen (map generateKey cs))"
    by (simp add: res)
  have "length m = card (set (map generateKey cs))"
    using length_first_seen [of "map generateKey cs"] keys
    by (metis length_map)
  with count show "snd (deduplicate cs) + card (set (map generateKey cs)) = length cs"
    by (simp add: res)
qed

lemma generateKey_cases:
  "generateKey c =
     (if 7 \<le> length (key_phone c) then key_name c @ ''|'' @ key_phone c
      else if key_email c \<noteq> [] then key_name c @ ''|'' @ key_email c
      else key_name c)"
  by (cases "phone c"; cases "email c")
     (simp_all add: generateKey_def key_name_def key_phone_def key_email_def digits_of_def Let_def)

lemma or_else_first_present: "or_else a b = first_present a b"
  by (cases a) (simp_all add: or_else_def first_present_def)

lemma mergeNotes_joined: "mergeNotes a b = joined_notes a b"
  by (cases a; cases b) (auto simp: mergeNotes_def joined_notes_def first_present_def)

lemma mergeContacts_fields:
  "mergeContacts x y =
     \<lparr> name = (if name x \<noteq> [] then name x else name y),
       role = first_present (role x) (role y),
       department = first_present (department x) (department y),
       phone = first_present (phone x) (phone y),
       email = first_present (email x) (email y),
       notes = joined_notes (notes x) (notes y),
       confidence = None \<rparr>"
  by (simp add: mergeContacts_def or_else_first_present mergeNotes_joined)

lemma john_smith_twice: "deduplicate [john_smith, john_smith_again] = ([john_smith], 1)"
  by (simp add: john_smith_def john_smith_again_def dedup_defs string_defs char_defs)

text \<open>
  C2, as the code has it. The contacts that \<open>deduplicate\<close> returns are the records of the
  groups of equal key, in the order in which the keys are first seen: each is the first
  contact of its group with the later ones merged into it in order. The removed count is
  the length of the input less the number of distinct keys. The key is the normalized name,
  followed by a bar and the digits of the phone when there are at least 7, else by a bar and
  the lower-cased trimmed email when that is not empty, else by nothing. A merge keeps, for
  the name, the role, the department, the phone and the email, the first value that is
  neither \<open>null\<close> nor empty, joins the notes, and has no confidence. The two John Smith
  contacts collapse into the first one, with one contact removed.
\<close>

theorem deduplicate_by_key:
  "map Some (fst (deduplicate cs)) =
     map (\<lambda>k. merged (group_of cs k)) (first_seen (map generateKey cs)) \<and>
   snd (deduplicate cs) + card (set (map generateKey cs)) = length cs \<and>
   generateKey c =
     (if 7 \<le> length (key_phone c) then key_name c @ ''|'' @ key_phone c
      else if key_email c \<noteq> [] then key_name c @ ''|'' @ key_email c
      else key_name c) \<and>
   mergeContacts x y =
     \<lparr> name = (if name x \<noteq> [] then name x else name y),
       role = first_present (role x) (role y),
       department = first_present (department x) (department y),
       phone = first_present (phone x) (phone y),
       email = first_present (email x) (email y),
       notes = joined_notes (notes x) (notes y),
       confidence = None \<rparr> \<and>
   deduplicate [john_smith, john_smith_again] = ([john_smith], 1)"
  using deduplicate_groups deduplicate_count generateKey_cases mergeContacts_fields
    john_smith_twice
  by blast

text \<open>
  C2, as the specification states it, fails for the empty string: the first contact has
  the role \<open>""\<close>, which is not \<open>null\<close>, and the merged record has the role of the second.
\<close>

theorem deduplicate_blank_role_counterexample:
  "fst (deduplicate [blank_role, gaffer]) = [gaffer] \<and>
   role gaffer \<noteq> first_non_null (role blank_role) (role gaffer)"
  by (simp add: blank_role_def gaffer_def first_non_null_def dedup_defs string_defs char_defs)

section \<open>The name normalizer\<close>

subsection \<open>Characters\<close>


lemma simple_case_set: "simple_case s = (\<forall>c \<in> set s. one_unit_upper c)"
  by (simp add: simple_case_def list_all_iff)

lemma upper_simple_case: "one_unit_upper c \<Longrightarrow> toUpperCase_char c = [upper_char c]"
  by (simp add: toUpperCase_char_def upper_char_def one_unit_upper_def)

lemma lower_lower: "toLowerCase_char (toLowerCase_char c) = toLowerCase_char c"
  by (auto simp: toLowerCase_char_def has_lower_def code_unit_def)

lemma lower_upper: "toLowerCase_char (upper_char c) = toLowerCase_char c"
  by (auto simp: toLowerCase_char_def upper_char_def has_lower_def has_upper_def code_unit_def)






subsection \<open>Strings\<close>




lemma length_toLowerCase: "length (toLowerCase s) = length s"
  by (simp add: toLowerCase_def)




lemma capitalize_simple_case:
  "simple_case w \<Longrightarrow> capitalize w = (case w of [] \<Rightarrow> [] | c # cs \<Rightarrow> upper_char c # toLowerCase cs)"
  by (cases w) (simp_all add: capitalize_def toUpperCase_def upper_simple_case simple_case_set)

lemma lower_capitalize: "simple_case w \<Longrightarrow> toLowerCase (capitalize w) = toLowerCase w"
  by (cases w) (simp_all add: capitalize_simple_case toLowerCase_def lower_upper lower_lower simple_case_set)




lemma length_capitalize: "simple_case w \<Longrightarrow> length (capitalize w) = length w"
  using length_toLowerCase [of "capitalize w"] length_toLowerCase [of w]
  by (simp add: lower_capitalize)


subsection \<open>Splitting and joining\<close>











subsection \<open>Trimming and collapsing\<close>



















subsection \<open>One word\<close>










subsection \<open>All words\<close>









end
